theory Spec2Isabelle
  imports Main "HOL-Library.Word"
begin

unbundle bit_operations_syntax

section \<open>JavaScript values used by the audio handler\<close>

text \<open>
  The development embeds \<^verbatim>\<open>src/tool-handlers/analyze-audio.ts\<close>. Strings are
  \<^typ>\<open>string\<close>, a Buffer is a list of bytes, an optional value
  (\<^verbatim>\<open>model?: string\<close>, an unset environment variable, \<^verbatim>\<open>undefined\<close>) is an
  \<^typ>\<open>'a option\<close>. An \<^verbatim>\<open>async\<close> function is a function that takes the trace of the
  calls made so far and returns its outcome (\<open>Inl\<close> for a rejection) with the longer
  trace. The log line written with \<^verbatim>\<open>console.error\<close> (line 162) is left out.
\<close>

type_synonym byte = "8 word"

text \<open>\<^verbatim>\<open>DEFAULT_AUDIO_MODEL\<close>, line 8.\<close>

definition DEFAULT_AUDIO_MODEL :: string where
  "DEFAULT_AUDIO_MODEL = ''mistralai/voxtral-small-24b-2507''"

text \<open>
  Truthiness of an optional string: \<^verbatim>\<open>undefined\<close> and the empty string are falsy.
  \<open>or_else a b\<close> is \<^verbatim>\<open>a || b\<close> for an optional string \<open>a\<close> and a string \<open>b\<close>.
\<close>

definition truthy :: "string option \<Rightarrow> bool" where
  "truthy v = (case v of None \<Rightarrow> False | Some s \<Rightarrow> s \<noteq> [])"

definition or_else :: "string option \<Rightarrow> string \<Rightarrow> string" where
  "or_else v d = (case v of None \<Rightarrow> d | Some s \<Rightarrow> if s = [] then d else s)"

text \<open>
  \<^verbatim>\<open>String.prototype.toLowerCase\<close> on the letters A to Z; every other character is
  kept. The code compares lower-cased text with ASCII texts only (\<^verbatim>\<open>'.wav'\<close>,
  \<^verbatim>\<open>'.mp3'\<close>, \<^verbatim>\<open>'free'\<close>, \<^verbatim>\<open>'audio'\<close>, \<^verbatim>\<open>'voxtral'\<close>, \<^verbatim>\<open>'whisper'\<close>), and a
  string is its list of bytes. \<open>includes_str s t\<close> is \<^verbatim>\<open>s.includes(t)\<close>, the
  substring test.
\<close>

definition lower_char :: "char \<Rightarrow> char" where
  "lower_char c =
     (case map_of (zip ''ABCDEFGHIJKLMNOPQRSTUVWXYZ'' ''abcdefghijklmnopqrstuvwxyz'') c of
        None \<Rightarrow> c
      | Some d \<Rightarrow> d)"

definition toLowerCase :: "string \<Rightarrow> string" where
  "toLowerCase s = map lower_char s"

fun starts_with :: "string \<Rightarrow> string \<Rightarrow> bool" where
  "starts_with s [] = True"
| "starts_with [] (d # ds) = False"
| "starts_with (c # cs) (d # ds) = (c = d \<and> starts_with cs ds)"

fun includes_str :: "string \<Rightarrow> string \<Rightarrow> bool" where
  "includes_str [] t = (t = [])"
| "includes_str (c # cs) t = (starts_with (c # cs) t \<or> includes_str cs t)"

section \<open>normalizePath (lines 18 to 20)\<close>

text \<open>\<^verbatim>\<open>filePath.replace(/\\/g, '/')\<close>: every backslash becomes a slash.\<close>

definition backslash :: char where
  "backslash = CHR 0x5C"

fun normalizePath :: "string \<Rightarrow> string" where
  "normalizePath [] = []"
| "normalizePath (c # cs) = (if c = backslash then CHR ''/'' else c) # normalizePath cs"

section \<open>detectAudioFormat (lines 62 to 78)\<close>

text \<open>
  \<^verbatim>\<open>buffer[i]\<close> on a Buffer is the byte at \<open>i\<close>, or \<^verbatim>\<open>undefined\<close> when \<open>i\<close> is out
  of range; it never throws. \<^verbatim>\<open>x & 0xE0\<close> first converts \<open>x\<close> to a 32-bit integer,
  and \<^verbatim>\<open>undefined\<close> converts to 0. \<^verbatim>\<open>===\<close> of \<^verbatim>\<open>undefined\<close> and a number is false.
\<close>

definition at :: "byte list \<Rightarrow> nat \<Rightarrow> byte option" where
  "at buffer i = (if i < length buffer then Some (buffer ! i) else None)"

definition to_int32 :: "byte option \<Rightarrow> 32 word" where
  "to_int32 v = (case v of None \<Rightarrow> 0 | Some b \<Rightarrow> ucast b)"

text \<open>
  \<^verbatim>\<open>path.extname\<close> belongs to Node, not to this repository: it is the parameter
  \<open>extname\<close>. The function returns the string \<^verbatim>\<open>'wav'\<close> or \<^verbatim>\<open>'mp3'\<close>.
\<close>

definition is_riff :: "byte list \<Rightarrow> bool" where
  "is_riff buffer \<longleftrightarrow>
     at buffer 0 = Some 0x52 \<and> at buffer 1 = Some 0x49 \<and>
     at buffer 2 = Some 0x46 \<and> at buffer 3 = Some 0x46"

definition is_mpeg_sync :: "byte list \<Rightarrow> bool" where
  "is_mpeg_sync buffer \<longleftrightarrow>
     at buffer 0 = Some 0xFF \<and> to_int32 (at buffer 1) AND 0xE0 = 0xE0"

definition detectAudioFormat :: "(string \<Rightarrow> string) \<Rightarrow> byte list \<Rightarrow> string \<Rightarrow> string" where
  "detectAudioFormat extname buffer filename =
     (if is_riff buffer then ''wav''
      else if is_mpeg_sync buffer then ''mp3''
      else
        (let ext = toLowerCase (extname filename) in
         if ext = ''.wav'' then ''wav''
         else if ext = ''.mp3'' then ''mp3''
         else ''wav''))"

text \<open>
  A stand-in for \<^verbatim>\<open>path.extname\<close> at concrete inputs: the text from the last dot of
  a name that has no directory part and does not start with a dot, where Node's
  function gives the same.
\<close>

fun from_last_dot :: "string \<Rightarrow> string" where
  "from_last_dot [] = []"
| "from_last_dot (c # cs) =
     (if CHR ''.'' \<in> set cs then from_last_dot cs
      else if c = CHR ''.'' then c # cs else [])"

section \<open>Errors and results\<close>

text \<open>
  A value thrown by a collaborator (the OpenAI client, node-fetch, the file system) or
  by the handler's own code, other than an \<^verbatim>\<open>McpError\<close>: an \<^verbatim>\<open>Error\<close> instance
  with its message, or any other value with its \<^verbatim>\<open>String(...)\<close> rendering.
  \<^verbatim>\<open>McpError\<close> is a class of the MCP SDK that only the handler itself raises, so
  the collaborators' failures are of type \<open>thrown\<close> and the handler's of type \<open>exn\<close>.
  \<open>error_text\<close> is \<^verbatim>\<open>error instanceof Error ? error.message : String(error)\<close>.
\<close>

datatype thrown = ErrorObj string | NonError string

fun error_text :: "thrown \<Rightarrow> string" where
  "error_text (ErrorObj m) = m"
| "error_text (NonError s) = s"

datatype error_code = ParseError | InvalidRequest | MethodNotFound | InvalidParams | InternalError

datatype exn = McpError error_code string | Other thrown

record usage =
  prompt_tokens :: nat
  completion_tokens :: nat
  total_tokens :: nat

definition zero_usage :: usage where
  "zero_usage = \<lparr>prompt_tokens = 0, completion_tokens = 0, total_tokens = 0\<rparr>"

text \<open>
  A completion as the handler reads it: \<^verbatim>\<open>id\<close>, \<^verbatim>\<open>choices[i].message.content\<close>
  (a string or null), \<^verbatim>\<open>model\<close> and \<^verbatim>\<open>usage\<close> (possibly absent).
\<close>

record message =
  content :: "string option"

record choice =
  message :: message

record completion =
  c_id :: string
  choices :: "choice list"
  c_model :: string
  c_usage :: "usage option"

text \<open>The two entries of the \<^verbatim>\<open>content\<close> array, lines 146 to 158.\<close>

datatype content_part = TextPart string | InputAudio string string

text \<open>
  The object given to \<^verbatim>\<open>JSON.stringify\<close>: the analysis of lines 179 to 184 or the
  error of lines 285 to 289. The tool result carries it as its text, with
  \<^verbatim>\<open>isError\<close> absent or true.
\<close>

datatype payload =
    Analysis (a_id: string) (analysis: string) (a_model: string) (a_usage: "usage option")
  | Failure (error: string) (f_model: string) (f_usage: usage)

record tool_result =
  content_text :: payload
  isError :: "bool option"

section \<open>The collaborators\<close>

text \<open>
  A response of node-fetch: \<^verbatim>\<open>ok\<close> is true when the status is from 200 to 299;
  \<open>body\<close> is the outcome of \<^verbatim>\<open>arrayBuffer()\<close>.
\<close>

record response =
  status :: nat
  statusText :: string
  body :: "thrown + byte list"

definition ok :: "response \<Rightarrow> bool" where
  "ok r \<longleftrightarrow> 200 \<le> status r \<and> status r < 300"

record model_entry =
  model_id :: string

text \<open>
  The calls that leave the process, in the order they are made. A completion call
  is recorded with the model it names and with its outcome.
\<close>

datatype event =
    HttpGet string
  | ReadFile string
  | ModelsList
  | ChatCreate string "content_part list" "thrown + completion"

text \<open>
  The world outside the handler. Each remote call is answered as a function of the calls
  made so far, so the same call may be answered differently the next time.
  \<open>parses_as_url s\<close> says that \<^verbatim>\<open>new URL(s)\<close> does not throw; \<open>models_list\<close> answers
  \<^verbatim>\<open>openai.models.list()\<close> with a failure, a response without \<^verbatim>\<open>data\<close>, or the
  listed entries; \<open>backup_model\<close> is
  \<^verbatim>\<open>process.env.OPENROUTER_DEFAULT_MODEL_AUDIO_BACKUP\<close>.
\<close>

record env =
  parses_as_url :: "string \<Rightarrow> bool"
  fetch :: "event list \<Rightarrow> string \<Rightarrow> thrown + response"
  is_absolute :: "string \<Rightarrow> bool"
  resolve :: "string \<Rightarrow> string \<Rightarrow> string"
  cwd :: string
  read_file :: "event list \<Rightarrow> string \<Rightarrow> thrown + byte list"
  extname :: "string \<Rightarrow> string"
  to_base64 :: "byte list \<Rightarrow> string"
  models_list :: "event list \<Rightarrow> thrown + model_entry list option"
  chat_create :: "event list \<Rightarrow> string \<Rightarrow> content_part list \<Rightarrow> thrown + completion"
  backup_model :: "string option"

text \<open>
  \<^verbatim>\<open>AnalyzeAudioToolRequest\<close>, lines 10 to 13. The type declares \<^verbatim>\<open>audio_url\<close> a
  string, the handler checks it at run time, so it may be absent.
\<close>

record arguments =
  audio_url :: "string option"
  model :: "string option"

section \<open>isUrl and fetchAudio (lines 25 to 57)\<close>

definition isUrl :: "env \<Rightarrow> string \<Rightarrow> bool" where
  "isUrl env path = parses_as_url env path"

definition fetchAudio :: "env \<Rightarrow> string \<Rightarrow> event list \<Rightarrow> (thrown + byte list) \<times> event list" where
  "fetchAudio env audioPath tr =
     (if isUrl env audioPath then
        ((case fetch env tr audioPath of
            Inl e \<Rightarrow> Inl e
          | Inr response \<Rightarrow>
              if \<not> ok response
              then Inl (ErrorObj (''Failed to fetch audio: '' @ statusText response))
              else body response),
         tr @ [HttpGet audioPath])
      else
        (let normalizedPath = normalizePath audioPath;
             resolvedPath =
               (if \<not> is_absolute env normalizedPath
                then resolve env (cwd env) normalizedPath
                else normalizedPath)
         in (read_file env tr resolvedPath, tr @ [ReadFile resolvedPath])))"

section \<open>findSuitableFreeAudioModel (lines 83 to 109)\<close>

definition is_free_audio :: "model_entry \<Rightarrow> bool" where
  "is_free_audio m =
     (let modelId = toLowerCase (model_id m) in
      includes_str modelId ''free'' \<and>
      (includes_str modelId ''audio'' \<or> includes_str modelId ''voxtral'' \<or>
       includes_str modelId ''whisper''))"

definition findSuitableFreeAudioModel :: "env \<Rightarrow> event list \<Rightarrow> string \<times> event list" where
  "findSuitableFreeAudioModel env tr =
     (let fallbackModel = or_else (backup_model env) DEFAULT_AUDIO_MODEL in
      ((case models_list env tr of
          Inl e \<Rightarrow> fallbackModel
        | Inr None \<Rightarrow> fallbackModel
        | Inr (Some data) \<Rightarrow>
            if data = [] then fallbackModel
            else
              (case filter is_free_audio data of
                 [] \<Rightarrow> fallbackModel
               | m # ms \<Rightarrow> model_id m)),
       tr @ [ModelsList]))"

section \<open>handleAnalyzeAudio (lines 114 to 295)\<close>

text \<open>
  The object built from a completion (lines 175 to 187, and again at 202, 228 and 258).
  \<^verbatim>\<open>completion.choices[0]\<close> of an empty array is \<^verbatim>\<open>undefined\<close>, and reading
  \<^verbatim>\<open>.message\<close> of it throws a TypeError.
\<close>

definition no_choice_message :: string where
  "no_choice_message =
     ''Cannot read properties of undefined (reading '' @ [CHR 0x27] @ ''message'' @
     [CHR 0x27] @ '')''"

definition success_result :: "completion \<Rightarrow> thrown + tool_result" where
  "success_result c =
     (case choices c of
        [] \<Rightarrow> Inl (ErrorObj no_choice_message)
      | ch # rest \<Rightarrow>
          Inr \<lparr>content_text =
                 Analysis (c_id c) (or_else (content (message ch)) []) (c_model c) (c_usage c),
               isError = None\<rparr>)"

text \<open>
  One attempt: \<^verbatim>\<open>await openai.chat.completions.create({model, messages})\<close> followed
  by the construction of the result.
\<close>

definition attempt ::
  "env \<Rightarrow> string \<Rightarrow> content_part list \<Rightarrow> event list \<Rightarrow> (thrown + tool_result) \<times> event list" where
  "attempt env m parts tr =
     (let r = chat_create env tr m parts in
      ((case r of Inl e \<Rightarrow> Inl e | Inr c \<Rightarrow> success_result c),
       tr @ [ChatCreate m parts r]))"

text \<open>Lines 246 to 273: no backup to try, the free model directly.\<close>

definition without_backup ::
  "env \<Rightarrow> string \<Rightarrow> content_part list \<Rightarrow> thrown \<Rightarrow> event list \<Rightarrow>
   (thrown + tool_result) \<times> event list" where
  "without_backup env m parts primaryError tr =
     (case findSuitableFreeAudioModel env tr of
        (freeModel, tr1) \<Rightarrow>
          if freeModel \<noteq> [] \<and> freeModel \<noteq> m then attempt env freeModel parts tr1
          else (Inl primaryError, tr1))"

text \<open>Lines 192 to 244: the backup model, then the free model.\<close>

definition with_backup ::
  "env \<Rightarrow> string \<Rightarrow> string \<Rightarrow> content_part list \<Rightarrow> event list \<Rightarrow>
   (thrown + tool_result) \<times> event list" where
  "with_backup env m backupModel parts tr =
     (case attempt env backupModel parts tr of
        (Inr res, tr1) \<Rightarrow> (Inr res, tr1)
      | (Inl backupError, tr1) \<Rightarrow>
          (case findSuitableFreeAudioModel env tr1 of
             (freeModel, tr2) \<Rightarrow>
               if freeModel \<noteq> [] \<and> freeModel \<noteq> m \<and> freeModel \<noteq> backupModel
               then attempt env freeModel parts tr2
               else (Inl backupError, tr2)))"

text \<open>The handler of \<^verbatim>\<open>primaryError\<close>, lines 188 to 275.\<close>

definition on_primary_error ::
  "env \<Rightarrow> string \<Rightarrow> content_part list \<Rightarrow> thrown \<Rightarrow> event list \<Rightarrow>
   (thrown + tool_result) \<times> event list" where
  "on_primary_error env m parts primaryError tr =
     (case backup_model env of
        None \<Rightarrow> without_backup env m parts primaryError tr
      | Some backupModel \<Rightarrow>
          if backupModel \<noteq> [] \<and> backupModel \<noteq> m
          then with_backup env m backupModel parts tr
          else without_backup env m parts primaryError tr)"

definition primary_model :: "arguments \<Rightarrow> string option \<Rightarrow> string" where
  "primary_model args defaultModel =
     or_else (model args) (or_else defaultModel DEFAULT_AUDIO_MODEL)"

definition instruction :: string where
  "instruction = ''Please transcribe and provide me the raw content of this audio.''"

text \<open>The \<^verbatim>\<open>content\<close> array of lines 136 to 158.\<close>

definition build_content :: "string \<Rightarrow> string \<Rightarrow> content_part list" where
  "build_content base64 format = [TextPart instruction, InputAudio base64 format]"

definition validation_fault :: exn where
  "validation_fault = McpError InvalidParams ''audio_url parameter is required''"

text \<open>The body of the outer \<^verbatim>\<open>try\<close>, lines 120 to 275.\<close>

definition handler_body ::
  "env \<Rightarrow> arguments \<Rightarrow> string option \<Rightarrow> (exn + tool_result) \<times> event list" where
  "handler_body env args defaultModel =
     (case audio_url args of
        None \<Rightarrow> (Inl validation_fault, [])
      | Some url \<Rightarrow>
          if url = [] then (Inl validation_fault, [])
          else
            (case fetchAudio env url [] of
               (Inl e, tr) \<Rightarrow> (Inl (Other e), tr)
             | (Inr buffer, tr) \<Rightarrow>
                 (let format = detectAudioFormat (extname env) buffer url;
                      base64 = to_base64 env buffer;
                      parts = build_content base64 format;
                      m = primary_model args defaultModel
                  in case attempt env m parts tr of
                       (Inr res, tr1) \<Rightarrow> (Inr res, tr1)
                     | (Inl primaryError, tr1) \<Rightarrow>
                         (case on_primary_error env m parts primaryError tr1 of
                            (Inr res, tr2) \<Rightarrow> (Inr res, tr2)
                          | (Inl e, tr2) \<Rightarrow> (Inl (Other e), tr2)))))"

text \<open>
  The outer \<^verbatim>\<open>catch\<close>, lines 276 to 294: an \<^verbatim>\<open>McpError\<close> is thrown again, anything
  else becomes a result with \<^verbatim>\<open>isError: true\<close>. \<open>Inl\<close> is a rejected promise.
\<close>

definition soft_failure :: "arguments \<Rightarrow> string option \<Rightarrow> thrown \<Rightarrow> tool_result" where
  "soft_failure args defaultModel e =
     \<lparr>content_text = Failure (error_text e) (primary_model args defaultModel) zero_usage,
      isError = Some True\<rparr>"

definition handleAnalyzeAudio ::
  "env \<Rightarrow> arguments \<Rightarrow> string option \<Rightarrow> (exn + tool_result) \<times> event list" where
  "handleAnalyzeAudio env args defaultModel =
     (case handler_body env args defaultModel of
        (Inr res, tr) \<Rightarrow> (Inr res, tr)
      | (Inl (McpError code msg), tr) \<Rightarrow> (Inl (McpError code msg), tr)
      | (Inl (Other e), tr) \<Rightarrow> (Inr (soft_failure args defaultModel e), tr))"

section \<open>Reading a trace\<close>

fun completion_models :: "event list \<Rightarrow> string list" where
  "completion_models [] = []"
| "completion_models (ChatCreate m parts r # evs) = m # completion_models evs"
| "completion_models (ev # evs) = completion_models evs"

fun completion_outcomes :: "event list \<Rightarrow> (thrown + completion) list" where
  "completion_outcomes [] = []"
| "completion_outcomes (ChatCreate m parts r # evs) = r # completion_outcomes evs"
| "completion_outcomes (ev # evs) = completion_outcomes evs"

fun is_load :: "event \<Rightarrow> bool" where
  "is_load (HttpGet u) = True"
| "is_load (ReadFile p) = True"
| "is_load ev = False"

definition loads :: "event list \<Rightarrow> nat" where
  "loads evs = length (filter is_load evs)"

definition listings :: "event list \<Rightarrow> nat" where
  "listings evs = length (filter (\<lambda>ev. ev = ModelsList) evs)"

text \<open>
  The calls to the remote inference API alone, without their arguments' payload and
  their outcomes: a model listing, or a completion for a model.
\<close>

datatype call = Listing | Completion string

fun api_calls :: "event list \<Rightarrow> call list" where
  "api_calls [] = []"
| "api_calls (ChatCreate m parts r # evs) = Completion m # api_calls evs"
| "api_calls (ModelsList # evs) = Listing # api_calls evs"
| "api_calls (ev # evs) = api_calls evs"

text \<open>
  A trace is sequenced when every completion call in it carries the answer the world
  gave on the calls made before it: each call has returned before the next is issued.
\<close>

fun sequenced :: "env \<Rightarrow> event list \<Rightarrow> event list \<Rightarrow> bool" where
  "sequenced env pre [] = True"
| "sequenced env pre (ChatCreate m parts r # evs) =
     (r = chat_create env pre m parts \<and> sequenced env (pre @ [ChatCreate m parts r]) evs)"
| "sequenced env pre (ev # evs) = sequenced env (pre @ [ev]) evs"

text \<open>The content array the handler sends for a loaded buffer.\<close>

definition parts_of :: "env \<Rightarrow> string \<Rightarrow> byte list \<Rightarrow> content_part list" where
  "parts_of env url buffer =
     build_content (to_base64 env buffer) (detectAudioFormat (extname env) buffer url)"

text \<open>
  An attempt fails when its completion call is rejected, or when the completion it
  returns has no choice to read and building the result throws. \<open>attempt_error\<close> is
  the error of a failed attempt, read from the outcome of its call.
\<close>

definition attempt_error :: "thrown + completion \<Rightarrow> thrown option" where
  "attempt_error r =
     (case r of
        Inl e \<Rightarrow> Some e
      | Inr c \<Rightarrow> (case success_result c of Inl e \<Rightarrow> Some e | Inr res \<Rightarrow> None))"

text \<open>The error in hand after some attempts: the last one's, or the one held before.\<close>

definition last_error :: "thrown \<Rightarrow> (thrown + completion) list \<Rightarrow> thrown" where
  "last_error e outs =
     (if outs = [] then e
      else (case attempt_error (last outs) of Some e' \<Rightarrow> e' | None \<Rightarrow> e))"

section \<open>Concrete worlds for the examples\<close>

text \<open>
  A world with one readable file, \<^verbatim>\<open>/srv/clip.mp3\<close>, an HTTP server that answers 404,
  and a remote API given by its answer to each model, its answer to the listing call and
  the configured backup model.
\<close>

definition sample_completion :: "string \<Rightarrow> completion" where
  "sample_completion m =
     \<lparr>c_id = ''gen-1'', choices = [\<lparr>message = \<lparr>content = Some ''hello''\<rparr>\<rparr>],
      c_model = m,
      c_usage = Some \<lparr>prompt_tokens = 7, completion_tokens = 2, total_tokens = 9\<rparr>\<rparr>"

definition sample_env ::
  "(string \<Rightarrow> thrown + completion) \<Rightarrow> (thrown + model_entry list option) \<Rightarrow>
   string option \<Rightarrow> env" where
  "sample_env answer listing backup =
     \<lparr>parses_as_url = (\<lambda>s. starts_with s ''https://''),
      fetch = (\<lambda>tr u. Inr \<lparr>status = 404, statusText = ''Not Found'', body = Inr []\<rparr>),
      is_absolute = (\<lambda>p. starts_with p ''/''),
      resolve = (\<lambda>dir p. dir @ ''/'' @ p),
      cwd = ''/srv'',
      read_file = (\<lambda>tr p. if p = ''/srv/clip.mp3'' then Inr [0xFF, 0xFB, 0x90]
                             else Inl (ErrorObj ''ENOENT'')),
      extname = from_last_dot,
      to_base64 = (\<lambda>b. ''//uQ''),
      models_list = (\<lambda>tr. listing),
      chat_create = (\<lambda>tr m parts. answer m),
      backup_model = backup\<rparr>"

definition refuses :: "string \<Rightarrow> thrown + completion" where
  "refuses m = Inl (ErrorObj (''no endpoint for '' @ m))"

definition accepts :: "string \<Rightarrow> thrown + completion" where
  "accepts m = Inr (sample_completion m)"

text \<open>
  A completion that the API returns without any choice, and a remote API that answers
  the model \<^verbatim>\<open>m1\<close> with it and refuses every other model.
\<close>

definition empty_completion :: "string \<Rightarrow> completion" where
  "empty_completion m = \<lparr>c_id = ''gen-0'', choices = [], c_model = m, c_usage = None\<rparr>"

definition choiceless_primary :: "string \<Rightarrow> thrown + completion" where
  "choiceless_primary m = (if m = ''m1'' then Inr (empty_completion m) else refuses m)"

definition listing_down :: "thrown + model_entry list option" where
  "listing_down = Inl (ErrorObj ''listing failed'')"

definition listing_free :: "thrown + model_entry list option" where
  "listing_free =
     Inr (Some [\<lparr>model_id = ''openai/gpt-4o''\<rparr>, \<lparr>model_id = ''Vendor/Whisper-Large:FREE''\<rparr>])"

definition sample_args :: arguments where
  "sample_args = \<lparr>audio_url = Some ''clip.mp3'', model = Some ''m1''\<rparr>"

definition sample_parts :: "content_part list" where
  "sample_parts = [TextPart instruction, InputAudio ''//uQ'' ''mp3'']"

section \<open>Bytes and magic numbers\<close>

lemma at_Cons_Suc: "at (x # xs) (Suc i) = at xs i"
  by (simp add: at_def)

lemma at_Some_0: "at xs 0 = Some v \<Longrightarrow> \<exists>rest. xs = v # rest"
  by (cases xs) (auto simp: at_def)

lemma is_riff_short: "length buffer < 4 \<Longrightarrow> \<not> is_riff buffer"
  by (auto simp: is_riff_def at_def)

lemma is_mpeg_sync_one: "\<not> is_mpeg_sync [b]"
  by (simp add: is_mpeg_sync_def at_def to_int32_def)

lemma is_riff_Cons: "is_riff (0x52 # 0x49 # 0x46 # 0x46 # rest)"
  by (simp add: is_riff_def at_def)

text \<open>The RIFF test holds exactly of the buffers that start with the bytes of "RIFF".\<close>

lemma is_riff_iff: "is_riff buffer \<longleftrightarrow> (\<exists>rest. buffer = 0x52 # 0x49 # 0x46 # 0x46 # rest)"
proof
  assume r: "is_riff buffer"
  then obtain r0 where b0: "buffer = 0x52 # r0"
    using at_Some_0 [of buffer "0x52"] by (auto simp: is_riff_def)
  with r have "at r0 0 = Some 0x49"
    by (simp add: is_riff_def eval_nat_numeral at_Cons_Suc)
  then obtain r1 where b1: "r0 = 0x49 # r1"
    using at_Some_0 by blast
  with r b0 have "at r1 0 = Some 0x46"
    by (simp add: is_riff_def eval_nat_numeral at_Cons_Suc)
  then obtain r2 where b2: "r1 = 0x46 # r2"
    using at_Some_0 by blast
  with r b0 b1 have "at r2 0 = Some 0x46"
    by (simp add: is_riff_def eval_nat_numeral at_Cons_Suc)
  then obtain r3 where b3: "r2 = 0x46 # r3"
    using at_Some_0 by blast
  from b0 b1 b2 b3 show "\<exists>rest. buffer = 0x52 # 0x49 # 0x46 # 0x46 # rest"
    by simp
next
  assume "\<exists>rest. buffer = 0x52 # 0x49 # 0x46 # 0x46 # rest"
  then show "is_riff buffer"
    by (auto simp: is_riff_Cons)
qed

lemma uint_ucast_byte: "uint (ucast (b::8 word) :: 32 word) = uint b"
  by (rule uint_up_ucast) (simp add: is_up)

lemma int32_and_byte: "(to_int32 (Some b) AND 0xE0 = 0xE0) \<longleftrightarrow> (b AND 0xE0 = 0xE0)"
  by (simp add: to_int32_def word_uint_eq_iff uint_and uint_ucast_byte)

lemma is_mpeg_sync_Cons: "is_mpeg_sync (0xFF # b # rest) \<longleftrightarrow> b AND 0xE0 = 0xE0"
  using int32_and_byte [of b] by (simp add: is_mpeg_sync_def at_def)

text \<open>
  The MPEG test holds exactly of the buffers that start with 0xFF and a byte whose top
  three bits are set.
\<close>

lemma is_mpeg_sync_iff:
  "is_mpeg_sync buffer \<longleftrightarrow> (\<exists>b rest. buffer = 0xFF # b # rest \<and> b AND 0xE0 = 0xE0)"
proof
  assume s: "is_mpeg_sync buffer"
  then obtain r0 where b0: "buffer = 0xFF # r0"
    using at_Some_0 [of buffer "0xFF"] by (auto simp: is_mpeg_sync_def)
  show "\<exists>b rest. buffer = 0xFF # b # rest \<and> b AND 0xE0 = 0xE0"
  proof (cases r0)
    case Nil
    with s b0 show ?thesis
      by (simp add: is_mpeg_sync_one)
  next
    case (Cons b rest)
    with s b0 show ?thesis
      by (simp add: is_mpeg_sync_Cons)
  qed
next
  assume "\<exists>b rest. buffer = 0xFF # b # rest \<and> b AND 0xE0 = 0xE0"
  then show "is_mpeg_sync buffer"
    by (auto simp: is_mpeg_sync_Cons)
qed

lemmas detect_defs =
  detectAudioFormat_def is_riff_def is_mpeg_sync_def at_def to_int32_def
  toLowerCase_def lower_char_def Let_def

section \<open>Format detection\<close>

text \<open>
  C7. Format detection is total: for every buffer, the empty one and those shorter than
  four bytes included, and every filename, the result is \<^verbatim>\<open>'wav'\<close> or \<^verbatim>\<open>'mp3'\<close>.
  Out-of-range reads give \<^verbatim>\<open>undefined\<close>, which fails each magic-number test and
  raises nothing: a buffer shorter than four bytes is never RIFF, a buffer shorter than
  two bytes is never an MPEG sync.
\<close>

theorem detectAudioFormat_total:
  "(detectAudioFormat ext buffer filename = ''wav'' \<or>
    detectAudioFormat ext buffer filename = ''mp3'') \<and>
   (length buffer < 4 \<longrightarrow> \<not> is_riff buffer) \<and>
   (length buffer < 2 \<longrightarrow> \<not> is_mpeg_sync buffer)"
proof -
  have short: "\<not> is_mpeg_sync buffer" if "length buffer < 2"
  proof (cases buffer)
    case Nil
    then show ?thesis by (simp add: is_mpeg_sync_def at_def)
  next
    case (Cons b bs)
    with that have "buffer = [b]" by simp
    then show ?thesis by (simp add: is_mpeg_sync_one)
  qed
  show ?thesis
    using short by (simp add: detectAudioFormat_def Let_def is_riff_short)
qed

theorem detectAudioFormat_total_witness:
  "detectAudioFormat from_last_dot [] ''clip.MP3'' = ''mp3'' \<and>
   detectAudioFormat from_last_dot [0xFF] ''clip'' = ''wav'' \<and>
   \<not> is_riff [0x52, 0x49, 0x46] \<and> \<not> is_mpeg_sync [0xFF]"
proof -
  have a: "detectAudioFormat from_last_dot [] ''clip.MP3'' = ''mp3''"
    by (simp add: detect_defs)
  have b: "detectAudioFormat from_last_dot [0xFF] ''clip'' = ''wav''"
    by (simp add: detect_defs)
  from detectAudioFormat_total [of from_last_dot "[0x52, 0x49, 0x46]" "''x''"]
  have c: "\<not> is_riff [0x52, 0x49, 0x46]" by simp
  from detectAudioFormat_total [of from_last_dot "[0xFF]" "''x''"]
  have d: "\<not> is_mpeg_sync [0xFF]" by simp
  from a b c d show ?thesis by simp
qed

text \<open>
  C8. The classifiers are tried in a fixed order and the first match wins. A buffer whose
  first four bytes are the RIFF magic number is \<^verbatim>\<open>'wav'\<close> whatever the filename. A
  buffer that starts with 0xFF and a byte whose top three bits are set (it cannot be
  RIFF) is \<^verbatim>\<open>'mp3'\<close> whatever the filename. Only when neither magic number matches is
  the lower-cased extension of the filename read: \<^verbatim>\<open>.wav\<close> gives \<^verbatim>\<open>'wav'\<close>,
  \<^verbatim>\<open>.mp3\<close> gives \<^verbatim>\<open>'mp3'\<close>, anything else the default \<^verbatim>\<open>'wav'\<close>.
\<close>

theorem detectAudioFormat_precedence:
  "detectAudioFormat ext (0x52 # 0x49 # 0x46 # 0x46 # rest) filename = ''wav'' \<and>
   (b AND 0xE0 = 0xE0 \<longrightarrow> detectAudioFormat ext (0xFF # b # rest) filename = ''mp3'') \<and>
   (\<not> is_riff buffer \<and> \<not> is_mpeg_sync buffer \<longrightarrow>
      detectAudioFormat ext buffer filename =
        (if toLowerCase (ext filename) = ''.wav'' then ''wav''
         else if toLowerCase (ext filename) = ''.mp3'' then ''mp3''
         else ''wav''))"
proof -
  have riff: "detectAudioFormat ext (0x52 # 0x49 # 0x46 # 0x46 # rest) filename = ''wav''"
    by (simp add: detectAudioFormat_def is_riff_Cons)
  have "\<not> is_riff (0xFF # b # rest)"
    by (simp add: is_riff_def at_def)
  then have mpeg: "detectAudioFormat ext (0xFF # b # rest) filename = ''mp3''"
    if "b AND 0xE0 = 0xE0"
    using that by (simp add: detectAudioFormat_def is_mpeg_sync_Cons)
  have name: "detectAudioFormat ext buffer filename =
        (if toLowerCase (ext filename) = ''.wav'' then ''wav''
         else if toLowerCase (ext filename) = ''.mp3'' then ''mp3''
         else ''wav'')"
    if "\<not> is_riff buffer \<and> \<not> is_mpeg_sync buffer"
    using that by (simp add: detectAudioFormat_def Let_def)
  from riff mpeg name show ?thesis by blast
qed

theorem detectAudioFormat_precedence_witness:
  "detectAudioFormat from_last_dot [0x52, 0x49, 0x46, 0x46, 0x24] ''take.mp3'' = ''wav'' \<and>
   (0xFB :: byte) AND 0xE0 = 0xE0 \<and>
   detectAudioFormat from_last_dot [0xFF, 0xFB, 0x90] ''take.wav'' = ''mp3'' \<and>
   \<not> is_riff [0x4F, 0x67] \<and> \<not> is_mpeg_sync [0x4F, 0x67] \<and>
   detectAudioFormat from_last_dot [0x4F, 0x67] ''take.MP3'' = ''mp3'' \<and>
   detectAudioFormat from_last_dot [0x4F, 0x67] ''take.ogg'' = ''wav''"
proof -
  have top: "(0xFB :: byte) AND 0xE0 = 0xE0" by simp
  have no: "\<not> is_riff [0x4F, 0x67] \<and> \<not> is_mpeg_sync [0x4F, 0x67]"
    by (simp add: is_riff_def is_mpeg_sync_def at_def)
  have low: "toLowerCase (from_last_dot ''take.MP3'') = ''.mp3''"
    "toLowerCase (from_last_dot ''take.ogg'') = ''.ogg''"
    by (simp_all add: toLowerCase_def lower_char_def)
  from detectAudioFormat_precedence
    [of from_last_dot "[0x24]" "''take.mp3''" "0xFB" "[0x4F, 0x67]"]
  have a: "detectAudioFormat from_last_dot [0x52, 0x49, 0x46, 0x46, 0x24] ''take.mp3'' = ''wav''"
    by blast
  from detectAudioFormat_precedence
    [of from_last_dot "[0x90]" "''take.wav''" "0xFB" "[0x4F, 0x67]"] top
  have b: "detectAudioFormat from_last_dot [0xFF, 0xFB, 0x90] ''take.wav'' = ''mp3''"
    by blast
  from detectAudioFormat_precedence
    [of from_last_dot "[]" "''take.MP3''" "0xFB" "[0x4F, 0x67]"] no low
  have c: "detectAudioFormat from_last_dot [0x4F, 0x67] ''take.MP3'' = ''mp3''"
    by simp
  from detectAudioFormat_precedence
    [of from_last_dot "[]" "''take.ogg''" "0xFB" "[0x4F, 0x67]"] no low
  have d: "detectAudioFormat from_last_dot [0x4F, 0x67] ''take.ogg'' = ''wav''"
    by simp
  from a b c d top no show ?thesis by simp
qed

section \<open>The payload loader\<close>

lemma normalizePath_no_backslash: "backslash \<notin> set (normalizePath p)"
  by (induction p) (auto simp: backslash_def)

lemma normalizePath_map:
  "normalizePath p = map (\<lambda>c. if c = backslash then CHR ''/'' else c) p"
  by (induction p) auto

lemma fetchAudio_url:
  assumes "isUrl env ref"
  shows "snd (fetchAudio env ref tr) = tr @ [HttpGet ref]"
    and "fetch env tr ref = Inl e \<Longrightarrow> fst (fetchAudio env ref tr) = Inl e"
    and "fetch env tr ref = Inr r \<Longrightarrow> 200 \<le> status r \<and> status r < 300 \<Longrightarrow>
           fst (fetchAudio env ref tr) = body r"
    and "fetch env tr ref = Inr r \<Longrightarrow> \<not> (200 \<le> status r \<and> status r < 300) \<Longrightarrow>
           fst (fetchAudio env ref tr) =
             Inl (ErrorObj (''Failed to fetch audio: '' @ statusText r))"
  using assms by (auto simp: fetchAudio_def ok_def)

lemma fetchAudio_path:
  assumes "\<not> isUrl env ref"
  shows "fetchAudio env ref tr =
      (read_file env tr
         (if is_absolute env (normalizePath ref) then normalizePath ref
          else resolve env (cwd env) (normalizePath ref)),
       tr @ [ReadFile
         (if is_absolute env (normalizePath ref) then normalizePath ref
          else resolve env (cwd env) (normalizePath ref))])"
  using assms by (simp add: fetchAudio_def Let_def)

text \<open>
  C9. The loader classifies a reference by trying to parse it as a URL. If it parses, the
  loader issues one HTTP GET for it and nothing else: a failure of the request is
  propagated, a response outside the status range 200 to 299 is the failure
  "Failed to fetch audio: " followed by the status text, and otherwise the result is the
  response's body. If it does not parse, the reference is a path: every backslash
  becomes a slash, the path is resolved against the current working directory unless it
  is absolute, and the loader reads that one file, its result or its error being the
  loader's.
\<close>

theorem fetchAudio_classifies:
  "(isUrl env ref \<longleftrightarrow> parses_as_url env ref) \<and>
   (isUrl env ref \<longrightarrow>
      snd (fetchAudio env ref tr) = tr @ [HttpGet ref] \<and>
      (\<forall>e. fetch env tr ref = Inl e \<longrightarrow> fst (fetchAudio env ref tr) = Inl e) \<and>
      (\<forall>r. fetch env tr ref = Inr r \<longrightarrow>
         (if 200 \<le> status r \<and> status r < 300
          then fst (fetchAudio env ref tr) = body r
          else fst (fetchAudio env ref tr) =
                 Inl (ErrorObj (''Failed to fetch audio: '' @ statusText r))))) \<and>
   (\<not> isUrl env ref \<longrightarrow>
      fetchAudio env ref tr =
        (read_file env tr
           (if is_absolute env (normalizePath ref) then normalizePath ref
            else resolve env (cwd env) (normalizePath ref)),
         tr @ [ReadFile
           (if is_absolute env (normalizePath ref) then normalizePath ref
            else resolve env (cwd env) (normalizePath ref))]) \<and>
      normalizePath ref = map (\<lambda>c. if c = backslash then CHR ''/'' else c) ref \<and>
      backslash \<notin> set (normalizePath ref))"
proof -
  have a: "isUrl env ref \<longleftrightarrow> parses_as_url env ref"
    by (simp add: isUrl_def)
  have b: "snd (fetchAudio env ref tr) = tr @ [HttpGet ref] \<and>
      (\<forall>e. fetch env tr ref = Inl e \<longrightarrow> fst (fetchAudio env ref tr) = Inl e) \<and>
      (\<forall>r. fetch env tr ref = Inr r \<longrightarrow>
         (if 200 \<le> status r \<and> status r < 300
          then fst (fetchAudio env ref tr) = body r
          else fst (fetchAudio env ref tr) =
                 Inl (ErrorObj (''Failed to fetch audio: '' @ statusText r))))"
    if "isUrl env ref"
    using fetchAudio_url [OF that, of tr] by simp
  have c: "fetchAudio env ref tr =
        (read_file env tr
           (if is_absolute env (normalizePath ref) then normalizePath ref
            else resolve env (cwd env) (normalizePath ref)),
         tr @ [ReadFile
           (if is_absolute env (normalizePath ref) then normalizePath ref
            else resolve env (cwd env) (normalizePath ref))])"
    if "\<not> isUrl env ref"
    using fetchAudio_path [OF that] .
  from a b c normalizePath_map [of ref] normalizePath_no_backslash [of ref]
  show ?thesis by blast
qed

section \<open>Reading traces\<close>

lemma completion_models_append [simp]:
  "completion_models (xs @ ys) = completion_models xs @ completion_models ys"
  by (induction xs rule: completion_models.induct) simp_all

lemma completion_outcomes_append [simp]:
  "completion_outcomes (xs @ ys) = completion_outcomes xs @ completion_outcomes ys"
  by (induction xs rule: completion_outcomes.induct) simp_all

lemma api_calls_append [simp]: "api_calls (xs @ ys) = api_calls xs @ api_calls ys"
  by (induction xs rule: api_calls.induct) simp_all

lemma loads_append [simp]: "loads (xs @ ys) = loads xs + loads ys"
  by (simp add: loads_def)

lemma listings_append [simp]: "listings (xs @ ys) = listings xs + listings ys"
  by (simp add: listings_def)

lemma load_event [simp]:
  "is_load ev \<Longrightarrow>
     completion_outcomes (ev # evs) = completion_outcomes evs \<and>
     completion_models (ev # evs) = completion_models evs \<and>
     api_calls (ev # evs) = api_calls evs \<and>
     loads (ev # evs) = Suc (loads evs) \<and> listings (ev # evs) = listings evs"
  by (cases ev) (simp_all add: loads_def listings_def)

lemma models_of_calls:
  "completion_models evs =
     concat (map (\<lambda>c. case c of Listing \<Rightarrow> [] | Completion m \<Rightarrow> [m]) (api_calls evs))"
  by (induction evs rule: api_calls.induct) simp_all

lemma listings_of_calls: "listings evs = length (filter (\<lambda>c. c = Listing) (api_calls evs))"
  by (induction evs rule: api_calls.induct) (simp_all add: listings_def)

lemma sequenced_append:
  "sequenced env pre (xs @ ys) \<longleftrightarrow> sequenced env pre xs \<and> sequenced env (pre @ xs) ys"
  by (induction env pre xs rule: sequenced.induct) simp_all

lemma sequenced_load:
  "is_load ev \<Longrightarrow> sequenced env pre (ev # evs) = sequenced env (pre @ [ev]) evs"
  by (cases ev) simp_all

section \<open>The steps of the handler\<close>

lemma fetchAudio_trace: "\<exists>ev. is_load ev \<and> snd (fetchAudio env url tr) = tr @ [ev]"
  by (auto simp: fetchAudio_def Let_def)

lemma fetch_cases:
  obtains e ev where "fetchAudio env url [] = (Inl e, [ev])" "is_load ev"
  | buffer ev where "fetchAudio env url [] = (Inr buffer, [ev])" "is_load ev"
proof -
  obtain ev where ev: "is_load ev" "snd (fetchAudio env url []) = [ev]"
    using fetchAudio_trace [of env url "[]"] by auto
  show ?thesis
  proof (cases "fst (fetchAudio env url [])")
    case (Inl e)
    with ev have "fetchAudio env url [] = (Inl e, [ev])"
      by (simp add: prod_eq_iff)
    with ev that show ?thesis by blast
  next
    case (Inr buffer)
    with ev have "fetchAudio env url [] = (Inr buffer, [ev])"
      by (simp add: prod_eq_iff)
    with ev that show ?thesis by blast
  qed
qed

lemma attempt_eq:
  "attempt env m parts tr = (r, tr1) \<Longrightarrow>
     tr1 = tr @ [ChatCreate m parts (chat_create env tr m parts)] \<and>
     r = (case chat_create env tr m parts of Inl e \<Rightarrow> Inl e | Inr c \<Rightarrow> success_result c)"
  by (auto simp: attempt_def Let_def)

text \<open>
  A completion without a choice counts as a failed attempt: building the result throws
  inside the \<^verbatim>\<open>try\<close>, and the handler moves on to the next candidate.
\<close>

lemma attempt_no_choice:
  assumes "chat_create env tr m parts = Inr c" and "choices c = []"
  shows "attempt env m parts tr =
      (Inl (ErrorObj no_choice_message), tr @ [ChatCreate m parts (Inr c)])"
  using assms by (simp add: attempt_def success_result_def Let_def)

lemma handler_after_load:
  assumes "audio_url args = Some url" and "url \<noteq> []"
    and "fetchAudio env url [] = (Inr buffer, tr)"
  shows "handleAnalyzeAudio env args dm =
    (case attempt env (primary_model args dm) (parts_of env url buffer) tr of
          (Inr res, tr1) \<Rightarrow> (Inr res, tr1)
        | (Inl e, tr1) \<Rightarrow>
            (case on_primary_error env (primary_model args dm) (parts_of env url buffer) e tr1 of
               (Inr res, tr2) \<Rightarrow> (Inr res, tr2)
             | (Inl e', tr2) \<Rightarrow> (Inr (soft_failure args dm e'), tr2)))"
  using assms
  by (simp add: handleAnalyzeAudio_def handler_body_def parts_of_def Let_def
      split: prod.splits sum.splits)

lemma handler_load_failed:
  assumes "audio_url args = Some url" and "url \<noteq> []"
    and "fetchAudio env url [] = (Inl e, tr)"
  shows "handleAnalyzeAudio env args dm = (Inr (soft_failure args dm e), tr)"
  using assms by (simp add: handleAnalyzeAudio_def handler_body_def)

lemma handler_invalid:
  assumes "audio_url args = None \<or> audio_url args = Some []"
  shows "handleAnalyzeAudio env args dm = (Inl validation_fault, [])"
  using assms by (auto simp: handleAnalyzeAudio_def handler_body_def validation_fault_def)

text \<open>
  Every run of the handler is of one of five kinds: the request is refused, the load
  fails, the primary attempt gives the result, a later attempt gives the result, or
  every attempt made has failed.
\<close>

lemma handler_cases [case_names invalid load_failed primary_ok fallback_ok exhausted]:
  obtains
    "audio_url args = None \<or> audio_url args = Some []"
    "handleAnalyzeAudio env args dm = (Inl validation_fault, [])"
  | url e ev where
    "audio_url args = Some url" "url \<noteq> []" "is_load ev"
    "fetchAudio env url [] = (Inl e, [ev])"
    "handleAnalyzeAudio env args dm = (Inr (soft_failure args dm e), [ev])"
  | url buffer ev res tr1 where
    "audio_url args = Some url" "url \<noteq> []" "is_load ev"
    "fetchAudio env url [] = (Inr buffer, [ev])"
    "attempt env (primary_model args dm) (parts_of env url buffer) [ev] = (Inr res, tr1)"
    "handleAnalyzeAudio env args dm = (Inr res, tr1)"
  | url buffer ev e tr1 res tr2 where
    "audio_url args = Some url" "url \<noteq> []" "is_load ev"
    "fetchAudio env url [] = (Inr buffer, [ev])"
    "attempt env (primary_model args dm) (parts_of env url buffer) [ev] = (Inl e, tr1)"
    "on_primary_error env (primary_model args dm) (parts_of env url buffer) e tr1 = (Inr res, tr2)"
    "handleAnalyzeAudio env args dm = (Inr res, tr2)"
  | url buffer ev e tr1 e' tr2 where
    "audio_url args = Some url" "url \<noteq> []" "is_load ev"
    "fetchAudio env url [] = (Inr buffer, [ev])"
    "attempt env (primary_model args dm) (parts_of env url buffer) [ev] = (Inl e, tr1)"
    "on_primary_error env (primary_model args dm) (parts_of env url buffer) e tr1 = (Inl e', tr2)"
    "handleAnalyzeAudio env args dm = (Inr (soft_failure args dm e'), tr2)"
proof (cases "audio_url args = None \<or> audio_url args = Some []")
  case True
  with that(1) handler_invalid [of args env dm] show ?thesis by blast
next
  case False
  then obtain url where url: "audio_url args = Some url" "url \<noteq> []"
    by (cases "audio_url args") auto
  show ?thesis
  proof (rule fetch_cases [of env url])
    fix e ev
    assume f: "fetchAudio env url [] = (Inl e, [ev])" "is_load ev"
    with url that(2) handler_load_failed [of args url env e "[ev]" dm] show ?thesis
      by blast
  next
    fix buffer ev
    assume f: "fetchAudio env url [] = (Inr buffer, [ev])" "is_load ev"
    let ?p = "primary_model args dm" and ?parts = "parts_of env url buffer"
    have h: "handleAnalyzeAudio env args dm =
      (case attempt env ?p ?parts [ev] of
          (Inr res, tr1) \<Rightarrow> (Inr res, tr1)
        | (Inl e, tr1) \<Rightarrow>
            (case on_primary_error env ?p ?parts e tr1 of
               (Inr res, tr2) \<Rightarrow> (Inr res, tr2)
             | (Inl e', tr2) \<Rightarrow> (Inr (soft_failure args dm e'), tr2)))"
      using handler_after_load [OF url f(1), of dm] by simp
    obtain r1 tr1 where a: "attempt env ?p ?parts [ev] = (r1, tr1)"
      by (cases "attempt env ?p ?parts [ev]")
    show ?thesis
    proof (cases r1)
      case (Inr res)
      with a h have "handleAnalyzeAudio env args dm = (Inr res, tr1)" by simp
      with url f a Inr that(3) show ?thesis by blast
    next
      case (Inl e)
      obtain r2 tr2 where b: "on_primary_error env ?p ?parts e tr1 = (r2, tr2)"
        by (cases "on_primary_error env ?p ?parts e tr1")
      show ?thesis
      proof (cases r2)
        case (Inr res)
        with a Inl b h have "handleAnalyzeAudio env args dm = (Inr res, tr2)" by simp
        with url f a Inl b Inr that(4) show ?thesis by blast
      next
        case (Inl e')
        with a \<open>r1 = Inl e\<close> b h
        have "handleAnalyzeAudio env args dm = (Inr (soft_failure args dm e'), tr2)" by simp
        with url f a \<open>r1 = Inl e\<close> b Inl that(5) show ?thesis by blast
      qed
    qed
  qed
qed

section \<open>The calls made after the primary attempt has failed\<close>

lemma without_backup_calls:
  "\<exists>evs. snd (without_backup env m parts e tr) = tr @ evs \<and> loads evs = 0 \<and>
     sequenced env tr evs \<and>
     (api_calls evs = [Listing] \<or>
      (\<exists>f. f \<noteq> m \<and> f \<noteq> [] \<and> api_calls evs = [Listing, Completion f]))"
  by (auto simp: without_backup_def attempt_def Let_def findSuitableFreeAudioModel_def loads_def
      split: prod.splits)

lemma with_backup_calls:
  "\<exists>evs. snd (with_backup env m b parts tr) = tr @ evs \<and> loads evs = 0 \<and>
     sequenced env tr evs \<and>
     (api_calls evs = [Completion b] \<or> api_calls evs = [Completion b, Listing] \<or>
      (\<exists>f. f \<noteq> m \<and> f \<noteq> b \<and> f \<noteq> [] \<and>
         api_calls evs = [Completion b, Listing, Completion f]))"
  by (auto simp: with_backup_def attempt_def Let_def findSuitableFreeAudioModel_def loads_def
      split: prod.splits sum.splits)

lemma on_primary_error_calls:
  "\<exists>evs. snd (on_primary_error env m parts e tr) = tr @ evs \<and> loads evs = 0 \<and>
     sequenced env tr evs \<and>
     (api_calls evs = [Listing] \<or>
      (\<exists>f. f \<noteq> m \<and> Some f \<noteq> backup_model env \<and> api_calls evs = [Listing, Completion f]) \<or>
      (\<exists>b. backup_model env = Some b \<and> b \<noteq> m \<and>
         (api_calls evs = [Completion b] \<or> api_calls evs = [Completion b, Listing] \<or>
          (\<exists>f. f \<noteq> m \<and> f \<noteq> b \<and> api_calls evs = [Completion b, Listing, Completion f]))))"
proof (cases "backup_model env")
  case None
  with without_backup_calls [of env m parts e tr] show ?thesis
    by (auto simp: on_primary_error_def)
next
  case (Some b)
  show ?thesis
  proof (cases "b \<noteq> [] \<and> b \<noteq> m")
    case True
    with Some with_backup_calls [of env m b parts tr] show ?thesis
      by (auto simp: on_primary_error_def)
  next
    case False
    with Some without_backup_calls [of env m parts e tr] show ?thesis
      by (auto simp: on_primary_error_def)
  qed
qed

lemma on_primary_error_extends: "\<exists>evs. snd (on_primary_error env m parts e tr) = tr @ evs"
  using on_primary_error_calls [of env m parts e tr] by blast

text \<open>
  The calls to the remote API in a run, in order: the primary, then the backup if one
  is configured and differs, then the listing, then the model the listing led to if it
  differs from those tried.
\<close>

lemma handler_api_calls:
  "api_calls (snd (handleAnalyzeAudio env args dm)) = [] \<or>
   api_calls (snd (handleAnalyzeAudio env args dm)) = [Completion (primary_model args dm)] \<or>
   api_calls (snd (handleAnalyzeAudio env args dm)) =
     [Completion (primary_model args dm), Listing] \<or>
   (\<exists>f. f \<noteq> primary_model args dm \<and> Some f \<noteq> backup_model env \<and>
      api_calls (snd (handleAnalyzeAudio env args dm)) =
        [Completion (primary_model args dm), Listing, Completion f]) \<or>
   (\<exists>b. backup_model env = Some b \<and> b \<noteq> primary_model args dm \<and>
      (api_calls (snd (handleAnalyzeAudio env args dm)) =
         [Completion (primary_model args dm), Completion b] \<or>
       api_calls (snd (handleAnalyzeAudio env args dm)) =
         [Completion (primary_model args dm), Completion b, Listing] \<or>
       (\<exists>f. f \<noteq> primary_model args dm \<and> f \<noteq> b \<and>
          api_calls (snd (handleAnalyzeAudio env args dm)) =
            [Completion (primary_model args dm), Completion b, Listing, Completion f])))"
  (is "?A \<or> ?B \<or> ?C \<or> ?D \<or> ?E")
proof (cases env args dm rule: handler_cases)
  case invalid
  then show ?thesis by simp
next
  case (load_failed url e ev)
  then show ?thesis by simp
next
  case (primary_ok url buffer ev res tr1)
  from attempt_eq [OF primary_ok(5)] primary_ok(3,6) have ?B by simp
  then show ?thesis by blast
next
  case (fallback_ok url buffer ev e tr1 res tr2)
  let ?p = "primary_model args dm" and ?parts = "parts_of env url buffer"
  from attempt_eq [OF fallback_ok(5)] fallback_ok(3)
  have tr1: "api_calls tr1 = [Completion ?p]" by simp
  from on_primary_error_calls [of env ?p ?parts e tr1] fallback_ok(6,7) tr1
  show ?thesis by auto
next
  case (exhausted url buffer ev e tr1 e' tr2)
  let ?p = "primary_model args dm" and ?parts = "parts_of env url buffer"
  from attempt_eq [OF exhausted(5)] exhausted(3)
  have tr1: "api_calls tr1 = [Completion ?p]" by simp
  from on_primary_error_calls [of env ?p ?parts e tr1] exhausted(6,7) tr1
  show ?thesis by auto
qed

lemma handler_loads: "loads (snd (handleAnalyzeAudio env args dm)) \<le> 1"
proof (cases env args dm rule: handler_cases)
  case invalid
  then show ?thesis by (simp add: loads_def)
next
  case (load_failed url e ev)
  then show ?thesis by (simp add: loads_def)
next
  case (primary_ok url buffer ev res tr1)
  from attempt_eq [OF primary_ok(5)] primary_ok(3,6) show ?thesis by (simp add: loads_def)
next
  case (fallback_ok url buffer ev e tr1 res tr2)
  let ?p = "primary_model args dm" and ?parts = "parts_of env url buffer"
  from attempt_eq [OF fallback_ok(5)] fallback_ok(3)
  have tr1: "loads tr1 = 1" by (simp add: loads_def)
  from on_primary_error_calls [of env ?p ?parts e tr1] fallback_ok(6,7) tr1
  show ?thesis by auto
next
  case (exhausted url buffer ev e tr1 e' tr2)
  let ?p = "primary_model args dm" and ?parts = "parts_of env url buffer"
  from attempt_eq [OF exhausted(5)] exhausted(3)
  have tr1: "loads tr1 = 1" by (simp add: loads_def)
  from on_primary_error_calls [of env ?p ?parts e tr1] exhausted(6,7) tr1
  show ?thesis by auto
qed

lemma handler_sequenced: "sequenced env [] (snd (handleAnalyzeAudio env args dm))"
proof (cases env args dm rule: handler_cases)
  case invalid
  then show ?thesis by simp
next
  case (load_failed url e ev)
  then show ?thesis by (simp add: sequenced_load)
next
  case (primary_ok url buffer ev res tr1)
  from attempt_eq [OF primary_ok(5)] primary_ok(3,6) show ?thesis
    by (simp add: sequenced_load)
next
  case (fallback_ok url buffer ev e tr1 res tr2)
  let ?p = "primary_model args dm" and ?parts = "parts_of env url buffer"
  from attempt_eq [OF fallback_ok(5)] fallback_ok(3)
  have "sequenced env [] tr1" by (simp add: sequenced_load)
  with on_primary_error_calls [of env ?p ?parts e tr1] fallback_ok(6,7)
  show ?thesis by (auto simp: sequenced_append)
next
  case (exhausted url buffer ev e tr1 e' tr2)
  let ?p = "primary_model args dm" and ?parts = "parts_of env url buffer"
  from attempt_eq [OF exhausted(5)] exhausted(3)
  have "sequenced env [] tr1" by (simp add: sequenced_load)
  with on_primary_error_calls [of env ?p ?parts e tr1] exhausted(6,7)
  show ?thesis by (auto simp: sequenced_append)
qed

section \<open>When every attempt fails\<close>

lemma attempt_error_iff:
  "attempt env m parts tr = (r, tr1) \<Longrightarrow>
     (attempt_error (chat_create env tr m parts) = Some e \<longleftrightarrow> r = Inl e)"
  by (auto simp: attempt_def attempt_error_def Let_def split: sum.splits)

lemma find_eq: "\<exists>f. findSuitableFreeAudioModel env tr = (f, tr @ [ModelsList])"
  by (simp add: findSuitableFreeAudioModel_def Let_def)

lemma attempt_outcome:
  "completion_outcomes (snd (attempt env m parts tr)) =
     completion_outcomes tr @ [chat_create env tr m parts]"
  by (simp add: attempt_def Let_def)

lemma attempt_failed:
  assumes "completion_outcomes (snd (attempt env m parts tr)) = completion_outcomes tr @ outs"
    and "\<forall>r \<in> set outs. attempt_error r \<noteq> None"
  shows "outs \<noteq> [] \<and> fst (attempt env m parts tr) = Inl (last_error e outs)"
proof -
  let ?r = "chat_create env tr m parts"
  from assms(1) have o: "outs = [?r]" by (simp add: attempt_outcome)
  with assms(2) obtain e' where e': "attempt_error ?r = Some e'" by auto
  obtain r tr1 where a: "attempt env m parts tr = (r, tr1)"
    by (cases "attempt env m parts tr")
  with attempt_error_iff [OF a, of e'] e' have "r = Inl e'" by simp
  with a o e' show ?thesis by (simp add: last_error_def)
qed

lemma without_backup_failed:
  assumes "completion_outcomes (snd (without_backup env m parts e tr)) =
      completion_outcomes tr @ outs"
    and "\<forall>r \<in> set outs. attempt_error r \<noteq> None"
  shows "fst (without_backup env m parts e tr) = Inl (last_error e outs)"
proof -
  obtain f where f: "findSuitableFreeAudioModel env tr = (f, tr @ [ModelsList])"
    using find_eq by blast
  show ?thesis
  proof (cases "f \<noteq> [] \<and> f \<noteq> m")
    case True
    with f have w: "without_backup env m parts e tr = attempt env f parts (tr @ [ModelsList])"
      by (simp add: without_backup_def)
    with assms(1) have "completion_outcomes (snd (attempt env f parts (tr @ [ModelsList]))) =
        completion_outcomes (tr @ [ModelsList]) @ outs"
      by simp
    from attempt_failed [OF this assms(2), of e] w show ?thesis by simp
  next
    case False
    with f have w: "without_backup env m parts e tr = (Inl e, tr @ [ModelsList])"
      by (auto simp: without_backup_def)
    with assms(1) show ?thesis by (simp add: last_error_def)
  qed
qed

lemma with_backup_failed:
  assumes "completion_outcomes (snd (with_backup env m b parts tr)) =
      completion_outcomes tr @ outs"
    and "\<forall>r \<in> set outs. attempt_error r \<noteq> None"
  shows "outs \<noteq> [] \<and> fst (with_backup env m b parts tr) = Inl (last_error e outs)"
proof -
  let ?rb = "chat_create env tr b parts"
  let ?tr1 = "tr @ [ChatCreate b parts ?rb]"
  obtain r where a: "attempt env b parts tr = (r, ?tr1)"
    by (simp add: attempt_def Let_def)
  obtain f where f: "findSuitableFreeAudioModel env ?tr1 = (f, ?tr1 @ [ModelsList])"
    using find_eq by blast
  show ?thesis
  proof (cases r)
    case (Inr res)
    with a have w: "with_backup env m b parts tr = (Inr res, ?tr1)"
      by (simp add: with_backup_def)
    with assms(1) have "outs = [?rb]" by simp
    with assms(2) obtain e' where "attempt_error ?rb = Some e'" by auto
    with attempt_error_iff [OF a, of e'] Inr show ?thesis by simp
  next
    case (Inl eb)
    with attempt_error_iff [OF a, of eb] have eb: "attempt_error ?rb = Some eb" by simp
    show ?thesis
    proof (cases "f \<noteq> [] \<and> f \<noteq> m \<and> f \<noteq> b")
      case True
      with a Inl f have w: "with_backup env m b parts tr =
          attempt env f parts (?tr1 @ [ModelsList])"
        by (simp add: with_backup_def)
      let ?rf = "chat_create env (?tr1 @ [ModelsList]) f parts"
      from w assms(1) have o: "outs = [?rb, ?rf]"
        by (simp add: attempt_outcome)
      with assms(2) obtain ef where ef: "attempt_error ?rf = Some ef" by auto
      obtain r' tr' where a': "attempt env f parts (?tr1 @ [ModelsList]) = (r', tr')"
        by (cases "attempt env f parts (?tr1 @ [ModelsList])")
      with attempt_error_iff [OF a', of ef] ef have "r' = Inl ef" by simp
      with w a' o ef show ?thesis by (simp add: last_error_def)
    next
      case False
      with a Inl f have w: "with_backup env m b parts tr = (Inl eb, ?tr1 @ [ModelsList])"
        by (auto simp: with_backup_def)
      with assms(1) have "outs = [?rb]" by simp
      with w eb show ?thesis by (simp add: last_error_def)
    qed
  qed
qed

lemma on_primary_error_failed:
  assumes "completion_outcomes (snd (on_primary_error env m parts e tr)) =
      completion_outcomes tr @ outs"
    and "\<forall>r \<in> set outs. attempt_error r \<noteq> None"
  shows "fst (on_primary_error env m parts e tr) = Inl (last_error e outs)"
proof (cases "\<exists>b. backup_model env = Some b \<and> b \<noteq> [] \<and> b \<noteq> m")
  case True
  then obtain b where b: "backup_model env = Some b" "b \<noteq> []" "b \<noteq> m" by blast
  then have eq: "on_primary_error env m parts e tr = with_backup env m b parts tr"
    by (simp add: on_primary_error_def)
  with with_backup_failed [of env m b parts tr outs e] assms show ?thesis
    by simp
next
  case False
  then have eq: "on_primary_error env m parts e tr = without_backup env m parts e tr"
    by (auto simp: on_primary_error_def split: option.splits)
  with without_backup_failed [of env m parts e tr outs] assms show ?thesis
    by simp
qed

text \<open>
  If every attempt of a run has failed, and one was made, the run ends with the error
  result that carries the error of the last attempt.
\<close>

lemma exhausted_core:
  assumes outs: "completion_outcomes (snd (handleAnalyzeAudio env args dm)) = outs"
    and ne: "outs \<noteq> []" and fl: "\<forall>r \<in> set outs. attempt_error r \<noteq> None"
  shows "\<exists>e. attempt_error (last outs) = Some e \<and>
      fst (handleAnalyzeAudio env args dm) = Inr (soft_failure args dm e)"
proof (cases env args dm rule: handler_cases)
  case invalid
  with outs ne show ?thesis by simp
next
  case (load_failed url e ev)
  with outs ne show ?thesis by simp
next
  case (primary_ok url buffer ev res tr1)
  let ?r1 = "chat_create env [ev] (primary_model args dm) (parts_of env url buffer)"
  from attempt_eq [OF primary_ok(5)] primary_ok(3,6) outs have "outs = [?r1]" by simp
  with fl obtain e' where "attempt_error ?r1 = Some e'" by auto
  with attempt_error_iff [OF primary_ok(5), of e'] show ?thesis by simp
next
  case (fallback_ok url buffer ev e tr1 res tr2)
  let ?p = "primary_model args dm" and ?parts = "parts_of env url buffer"
  obtain evs where evs: "tr2 = tr1 @ evs"
    using on_primary_error_extends [of env ?p ?parts e tr1] fallback_ok(6) by auto
  have "completion_outcomes (snd (on_primary_error env ?p ?parts e tr1)) =
      completion_outcomes tr1 @ completion_outcomes evs"
    using fallback_ok(6) evs by simp
  moreover have "\<forall>r \<in> set (completion_outcomes evs). attempt_error r \<noteq> None"
    using outs fl fallback_ok(7) evs by auto
  ultimately have "fst (on_primary_error env ?p ?parts e tr1) =
      Inl (last_error e (completion_outcomes evs))"
    by (rule on_primary_error_failed)
  with fallback_ok(6) show ?thesis by simp
next
  case (exhausted url buffer ev e tr1 e' tr2)
  let ?p = "primary_model args dm" and ?parts = "parts_of env url buffer"
  let ?r1 = "chat_create env [ev] ?p ?parts"
  from attempt_eq [OF exhausted(5)]
  have tr1: "tr1 = [ev] @ [ChatCreate ?p ?parts ?r1]" by simp
  from attempt_error_iff [OF exhausted(5), of e]
  have e: "attempt_error ?r1 = Some e" by simp
  obtain evs where evs: "tr2 = tr1 @ evs"
    using on_primary_error_extends [of env ?p ?parts e tr1] exhausted(6) by auto
  have o: "outs = ?r1 # completion_outcomes evs"
    using outs exhausted(3,7) tr1 evs by simp
  have "completion_outcomes (snd (on_primary_error env ?p ?parts e tr1)) =
      completion_outcomes tr1 @ completion_outcomes evs"
    using exhausted(6) evs by simp
  moreover have rest: "\<forall>r \<in> set (completion_outcomes evs). attempt_error r \<noteq> None"
    using o fl by simp
  ultimately have "fst (on_primary_error env ?p ?parts e tr1) =
      Inl (last_error e (completion_outcomes evs))"
    by (rule on_primary_error_failed)
  with exhausted(6) have e': "e' = last_error e (completion_outcomes evs)" by simp
  have "attempt_error (last outs) = Some e'"
  proof (cases "completion_outcomes evs = []")
    case True
    with o e e' show ?thesis by (simp add: last_error_def)
  next
    case False
    from last_in_set [OF False] rest
    have "attempt_error (last (completion_outcomes evs)) \<noteq> None" by blast
    then obtain x where "attempt_error (last (completion_outcomes evs)) = Some x"
      by (cases "attempt_error (last (completion_outcomes evs))") simp_all
    with False o e' show ?thesis by (simp add: last_error_def)
  qed
  with exhausted(7) show ?thesis by simp
qed

section \<open>Results that are not errors\<close>

lemma success_result_flag: "success_result c = Inr res \<Longrightarrow> isError res = None"
  by (auto simp: success_result_def split: list.splits)

lemma attempt_flag: "attempt env m parts tr = (Inr res, tr1) \<Longrightarrow> isError res = None"
  by (auto simp: attempt_def Let_def success_result_flag split: sum.splits)

lemma without_backup_flag:
  "without_backup env m parts e tr = (Inr res, tr1) \<Longrightarrow> isError res = None"
  by (auto simp: without_backup_def attempt_flag split: prod.splits if_splits)

lemma with_backup_flag:
  "with_backup env m b parts tr = (Inr res, tr1) \<Longrightarrow> isError res = None"
  by (auto simp: with_backup_def attempt_flag split: prod.splits sum.splits if_splits)

lemma on_primary_error_flag:
  "on_primary_error env m parts e tr = (Inr res, tr1) \<Longrightarrow> isError res = None"
  by (auto simp: on_primary_error_def with_backup_flag without_backup_flag
      split: option.splits if_splits)

section \<open>Discovery when the listing gives nothing\<close>

lemma find_no_entries:
  assumes "(\<exists>e. models_list env tr = Inl e) \<or> models_list env tr = Inr None \<or>
           models_list env tr = Inr (Some [])"
  shows "findSuitableFreeAudioModel env tr =
      (or_else (backup_model env) DEFAULT_AUDIO_MODEL, tr @ [ModelsList])"
  using assms by (auto simp: findSuitableFreeAudioModel_def Let_def)

lemma on_primary_error_no_entries:
  assumes "\<forall>tr. (\<exists>e. models_list env tr = Inl e) \<or> models_list env tr = Inr None \<or>
           models_list env tr = Inr (Some [])"
  shows "set (completion_models (snd (on_primary_error env m parts e tr))) \<subseteq>
      set (completion_models tr) \<union> {or_else (backup_model env) DEFAULT_AUDIO_MODEL}"
proof -
  have f: "\<And>tr. findSuitableFreeAudioModel env tr =
      (or_else (backup_model env) DEFAULT_AUDIO_MODEL, tr @ [ModelsList])"
    using assms find_no_entries by blast
  show ?thesis
    by (auto simp: on_primary_error_def with_backup_def without_backup_def f attempt_def Let_def
        or_else_def split: option.splits sum.splits if_splits)
qed

section \<open>Sample runs\<close>

lemmas run_defs =
  handleAnalyzeAudio_def handler_body_def fetchAudio_def isUrl_def on_primary_error_def
  with_backup_def without_backup_def attempt_def findSuitableFreeAudioModel_def
  is_free_audio_def success_result_def soft_failure_def primary_model_def build_content_def
  or_else_def detect_defs sample_env_def sample_args_def sample_parts_def refuses_def
  accepts_def listing_down_def listing_free_def sample_completion_def
  empty_completion_def choiceless_primary_def no_choice_message_def
  DEFAULT_AUDIO_MODEL_def backslash_def zero_usage_def

lemma sample_load:
  "fetchAudio (sample_env answer listing backup) ''clip.mp3'' [] =
     (Inr [0xFF, 0xFB, 0x90], [ReadFile ''/srv/clip.mp3''])"
  by (simp add: fetchAudio_def isUrl_def sample_env_def backslash_def Let_def)

lemma sample_parts_eq:
  "build_content (to_base64 (sample_env answer listing backup) [0xFF, 0xFB, 0x90])
     (detectAudioFormat (extname (sample_env answer listing backup)) [0xFF, 0xFB, 0x90]
        ''clip.mp3'') = sample_parts"
  by (simp add: build_content_def sample_parts_def sample_env_def detect_defs)

lemma run_backup_fails:
  "handleAnalyzeAudio (sample_env refuses listing_down (Some ''m2'')) sample_args None =
     (Inr \<lparr>content_text = Failure ''no endpoint for m2'' ''m1'' zero_usage,
           isError = Some True\<rparr>,
      [ReadFile ''/srv/clip.mp3'',
       ChatCreate ''m1'' sample_parts (refuses ''m1''),
       ChatCreate ''m2'' sample_parts (refuses ''m2''),
       ModelsList])"
  by (simp add: run_defs)

lemma run_full_chain:
  "snd (handleAnalyzeAudio (sample_env refuses listing_free (Some ''m2'')) sample_args None) =
     [ReadFile ''/srv/clip.mp3'',
      ChatCreate ''m1'' sample_parts (refuses ''m1''),
      ChatCreate ''m2'' sample_parts (refuses ''m2''),
      ModelsList,
      ChatCreate ''Vendor/Whisper-Large:FREE'' sample_parts
        (refuses ''Vendor/Whisper-Large:FREE'')]"
  by (simp add: run_defs)

section \<open>The claims about the handler\<close>

text \<open>
  C1, as stated: when the model listing fails or is empty, discovery yields no candidate,
  the error surfaced is that of the last explicitly tried model, and no completion call
  goes to a model outside the explicit candidates. The code does otherwise: discovery
  then returns \<^verbatim>\<open>fallbackModel\<close>, the configured backup or else the built-in default
  audio model. With the request naming \<^verbatim>\<open>m1\<close>, no backup configured and a failing
  listing, the handler sends a second completion call to the built-in default and
  reports that call's error.
\<close>

theorem phantom_model_counterexample:
  "models_list (sample_env refuses listing_down None)
     [ReadFile ''/srv/clip.mp3'',
      ChatCreate ''m1'' sample_parts (Inl (ErrorObj ''no endpoint for m1''))] =
     Inl (ErrorObj ''listing failed'') \<and>
   backup_model (sample_env refuses listing_down None) = None \<and>
   primary_model sample_args None = ''m1'' \<and>
   handleAnalyzeAudio (sample_env refuses listing_down None) sample_args None =
     (Inr \<lparr>content_text =
             Failure ''no endpoint for mistralai/voxtral-small-24b-2507'' ''m1'' zero_usage,
           isError = Some True\<rparr>,
      [ReadFile ''/srv/clip.mp3'',
       ChatCreate ''m1'' sample_parts (Inl (ErrorObj ''no endpoint for m1'')),
       ModelsList,
       ChatCreate ''mistralai/voxtral-small-24b-2507'' sample_parts
         (Inl (ErrorObj ''no endpoint for mistralai/voxtral-small-24b-2507''))])"
  by (simp add: run_defs)

text \<open>
  C1, amended. When the model listing fails or returns no entries, discovery yields the
  configured backup model, or the built-in default audio model when no backup is
  configured. The only models sent a completion call are the primary and that model. So
  when a backup is configured, or the primary is the built-in default, every completion
  call goes to the primary or the backup, and if all the calls made fail, the error
  reported is that of the last of them.
\<close>

theorem listing_failure_falls_back:
  assumes "\<forall>tr. (\<exists>e. models_list env tr = Inl e) \<or> models_list env tr = Inr None \<or>
           models_list env tr = Inr (Some [])"
  shows "fst (findSuitableFreeAudioModel env tr) = or_else (backup_model env) DEFAULT_AUDIO_MODEL \<and>
     set (completion_models (snd (handleAnalyzeAudio env args dm))) \<subseteq>
       {primary_model args dm, or_else (backup_model env) DEFAULT_AUDIO_MODEL} \<and>
     (truthy (backup_model env) \<or> primary_model args dm = DEFAULT_AUDIO_MODEL \<longrightarrow>
        (\<forall>m \<in> set (completion_models (snd (handleAnalyzeAudio env args dm))).
            m = primary_model args dm \<or> Some m = backup_model env) \<and>
        (completion_outcomes (snd (handleAnalyzeAudio env args dm)) \<noteq> [] \<and>
         (\<forall>r \<in> set (completion_outcomes (snd (handleAnalyzeAudio env args dm))).
             attempt_error r \<noteq> None) \<longrightarrow>
           (\<exists>e. attempt_error
                  (last (completion_outcomes (snd (handleAnalyzeAudio env args dm)))) = Some e \<and>
                fst (handleAnalyzeAudio env args dm) =
                  Inr \<lparr>content_text = Failure (error_text e) (primary_model args dm) zero_usage,
                       isError = Some True\<rparr>)))"
proof -
  let ?p = "primary_model args dm"
  let ?fb = "or_else (backup_model env) DEFAULT_AUDIO_MODEL"
  let ?ms = "completion_models (snd (handleAnalyzeAudio env args dm))"
  have one: "fst (findSuitableFreeAudioModel env tr) = ?fb"
    using assms find_no_entries [of env tr] by simp
  have two: "set ?ms \<subseteq> {?p, ?fb}"
  proof (cases env args dm rule: handler_cases)
    case invalid
    then show ?thesis by simp
  next
    case (load_failed url e ev)
    then show ?thesis by simp
  next
    case (primary_ok url buffer ev res tr1)
    from attempt_eq [OF primary_ok(5)] primary_ok(3,6) show ?thesis by simp
  next
    case (fallback_ok url buffer ev e tr1 res tr2)
    from attempt_eq [OF fallback_ok(5)] fallback_ok(3)
    have "completion_models tr1 = [?p]" by simp
    with on_primary_error_no_entries [OF assms, of ?p "parts_of env url buffer" e tr1]
      fallback_ok(6,7)
    show ?thesis by auto
  next
    case (exhausted url buffer ev e tr1 e' tr2)
    from attempt_eq [OF exhausted(5)] exhausted(3)
    have "completion_models tr1 = [?p]" by simp
    with on_primary_error_no_entries [OF assms, of ?p "parts_of env url buffer" e tr1]
      exhausted(6,7)
    show ?thesis by auto
  qed
  have three: "\<forall>m \<in> set ?ms. m = ?p \<or> Some m = backup_model env"
    if "truthy (backup_model env) \<or> ?p = DEFAULT_AUDIO_MODEL"
    using two that by (auto simp: truthy_def or_else_def split: option.splits if_splits)
  have four: "\<exists>e. attempt_error
        (last (completion_outcomes (snd (handleAnalyzeAudio env args dm)))) = Some e \<and>
      fst (handleAnalyzeAudio env args dm) =
        Inr \<lparr>content_text = Failure (error_text e) ?p zero_usage, isError = Some True\<rparr>"
    if "completion_outcomes (snd (handleAnalyzeAudio env args dm)) \<noteq> []"
      and "\<forall>r \<in> set (completion_outcomes (snd (handleAnalyzeAudio env args dm))).
        attempt_error r \<noteq> None"
    using exhausted_core [OF refl that] by (simp add: soft_failure_def)
  from one two three four show ?thesis by blast
qed

theorem listing_failure_falls_back_witness:
  "(\<forall>tr. (\<exists>e. models_list (sample_env refuses listing_down (Some ''m2'')) tr = Inl e) \<or>
         models_list (sample_env refuses listing_down (Some ''m2'')) tr = Inr None \<or>
         models_list (sample_env refuses listing_down (Some ''m2'')) tr = Inr (Some [])) \<and>
   truthy (backup_model (sample_env refuses listing_down (Some ''m2''))) \<and>
   fst (findSuitableFreeAudioModel (sample_env refuses listing_down (Some ''m2'')) []) = ''m2'' \<and>
   completion_models
     (snd (handleAnalyzeAudio (sample_env refuses listing_down (Some ''m2'')) sample_args None)) =
     [''m1'', ''m2''] \<and>
   fst (handleAnalyzeAudio (sample_env refuses listing_down (Some ''m2'')) sample_args None) =
     Inr \<lparr>content_text = Failure ''no endpoint for m2'' ''m1'' zero_usage, isError = Some True\<rparr>"
proof -
  let ?env = "sample_env refuses listing_down (Some ''m2'')"
  let ?outs = "completion_outcomes (snd (handleAnalyzeAudio ?env sample_args None))"
  have h: "\<forall>tr. (\<exists>e. models_list ?env tr = Inl e) \<or> models_list ?env tr = Inr None \<or>
      models_list ?env tr = Inr (Some [])"
    by (simp add: sample_env_def listing_down_def)
  have t: "truthy (backup_model ?env)"
    by (simp add: truthy_def sample_env_def)
  have ms: "completion_models (snd (handleAnalyzeAudio ?env sample_args None)) = [''m1'', ''m2'']"
    by (simp add: run_backup_fails)
  have os: "?outs = [refuses ''m1'', refuses ''m2'']"
    by (simp add: run_backup_fails)
  then have fl: "?outs \<noteq> [] \<and> (\<forall>r \<in> set ?outs. attempt_error r \<noteq> None)"
    by (simp add: refuses_def attempt_error_def)
  from listing_failure_falls_back [OF h, of "[]" sample_args None] t fl
  have f: "fst (findSuitableFreeAudioModel ?env []) = or_else (backup_model ?env) DEFAULT_AUDIO_MODEL"
    and r: "\<exists>e. attempt_error (last ?outs) = Some e \<and>
      fst (handleAnalyzeAudio ?env sample_args None) =
        Inr \<lparr>content_text = Failure (error_text e) (primary_model sample_args None) zero_usage,
             isError = Some True\<rparr>"
    by blast+
  from f have f': "fst (findSuitableFreeAudioModel ?env []) = ''m2''"
    by (simp add: or_else_def sample_env_def)
  from r os have r': "fst (handleAnalyzeAudio ?env sample_args None) =
      Inr \<lparr>content_text = Failure ''no endpoint for m2'' ''m1'' zero_usage, isError = Some True\<rparr>"
    by (auto simp: refuses_def attempt_error_def primary_model_def sample_args_def or_else_def)
  from h t f' ms r' show ?thesis by blast
qed

text \<open>
  C2, as stated: whenever the completion call for the primary model succeeds, the handler
  returns that completion's result at once, with no backup completion call and no model
  listing. The code does otherwise when the call returns a completion whose
  \<^verbatim>\<open>choices\<close> array is empty: \<^verbatim>\<open>completion.choices[0].message\<close> throws inside the
  \<^verbatim>\<open>try\<close> of lines 165 to 188, the throw is caught as \<^verbatim>\<open>primaryError\<close>, and the
  handler goes on to the backup, the listing and the discovered model. Here the primary
  \<^verbatim>\<open>m1\<close> returns such a completion, the backup \<^verbatim>\<open>m2\<close> and the discovered model refuse,
  and the handler makes all three completion calls and the listing call and reports the
  last refusal.
\<close>

theorem choiceless_primary_counterexample:
  "chat_create (sample_env choiceless_primary listing_free (Some ''m2''))
     [ReadFile ''/srv/clip.mp3''] ''m1'' sample_parts = Inr (empty_completion ''m1'') \<and>
   primary_model sample_args None = ''m1'' \<and>
   handleAnalyzeAudio (sample_env choiceless_primary listing_free (Some ''m2'')) sample_args None =
     (Inr \<lparr>content_text =
             Failure ''no endpoint for Vendor/Whisper-Large:FREE'' ''m1'' zero_usage,
           isError = Some True\<rparr>,
      [ReadFile ''/srv/clip.mp3'',
       ChatCreate ''m1'' sample_parts (Inr (empty_completion ''m1'')),
       ChatCreate ''m2'' sample_parts (Inl (ErrorObj ''no endpoint for m2'')),
       ModelsList,
       ChatCreate ''Vendor/Whisper-Large:FREE'' sample_parts
         (Inl (ErrorObj ''no endpoint for Vendor/Whisper-Large:FREE''))]) \<and>
   api_calls
     (snd (handleAnalyzeAudio (sample_env choiceless_primary listing_free (Some ''m2''))
        sample_args None)) =
     [Completion ''m1'', Completion ''m2'', Listing, Completion ''Vendor/Whisper-Large:FREE'']"
  by (simp add: run_defs)

text \<open>
  C2, amended. When the completion call for the primary model succeeds with a completion
  that carries at least one choice, the handler returns that completion's result at
  once: the analysis payload built from its first choice, with no error flag. The trace
  ends with that call, so no backup completion call and no model listing is made.
\<close>

theorem primary_success_returns_at_once:
  assumes "audio_url args = Some url" and "url \<noteq> []"
    and "fetchAudio env url [] = (Inr buffer, tr)"
    and "chat_create env tr (primary_model args dm)
           (build_content (to_base64 env buffer)
              (detectAudioFormat (extname env) buffer url)) = Inr c"
    and "choices c = ch # rest"
  shows "handleAnalyzeAudio env args dm =
      (Inr \<lparr>content_text =
              Analysis (c_id c) (or_else (content (message ch)) []) (c_model c) (c_usage c),
            isError = None\<rparr>,
       tr @ [ChatCreate (primary_model args dm)
               (build_content (to_base64 env buffer)
                  (detectAudioFormat (extname env) buffer url))
               (Inr c)]) \<and>
     api_calls (snd (handleAnalyzeAudio env args dm)) = [Completion (primary_model args dm)]"
proof -
  obtain ev where ev: "is_load ev" "tr = [ev]"
    using fetchAudio_trace [of env url "[]"] assms(3) by auto
  have "handleAnalyzeAudio env args dm =
      (Inr \<lparr>content_text =
              Analysis (c_id c) (or_else (content (message ch)) []) (c_model c) (c_usage c),
            isError = None\<rparr>,
       tr @ [ChatCreate (primary_model args dm)
               (build_content (to_base64 env buffer)
                  (detectAudioFormat (extname env) buffer url))
               (Inr c)])"
    using assms
    by (simp add: handler_after_load parts_of_def attempt_def success_result_def Let_def)
  with ev show ?thesis by simp
qed

theorem primary_success_returns_at_once_witness:
  "chat_create (sample_env accepts listing_free (Some ''m2'')) [ReadFile ''/srv/clip.mp3'']
     ''m1'' sample_parts = Inr (sample_completion ''m1'') \<and>
   handleAnalyzeAudio (sample_env accepts listing_free (Some ''m2'')) sample_args None =
     (Inr \<lparr>content_text =
             Analysis ''gen-1'' ''hello'' ''m1''
               (Some \<lparr>prompt_tokens = 7, completion_tokens = 2, total_tokens = 9\<rparr>),
           isError = None\<rparr>,
      [ReadFile ''/srv/clip.mp3'', ChatCreate ''m1'' sample_parts (Inr (sample_completion ''m1''))]) \<and>
   api_calls
     (snd (handleAnalyzeAudio (sample_env accepts listing_free (Some ''m2'')) sample_args None)) =
     [Completion ''m1'']"
proof -
  let ?env = "sample_env accepts listing_free (Some ''m2'')"
  have p: "primary_model sample_args None = ''m1''"
    by (simp add: primary_model_def sample_args_def or_else_def)
  have h1: "audio_url sample_args = Some ''clip.mp3''"
    by (simp add: sample_args_def)
  have h2: "''clip.mp3'' \<noteq> []" by simp
  have h3: "fetchAudio ?env ''clip.mp3'' [] =
      (Inr [0xFF, 0xFB, 0x90], [ReadFile ''/srv/clip.mp3''])"
    by (rule sample_load)
  have c: "chat_create ?env [ReadFile ''/srv/clip.mp3''] ''m1'' sample_parts =
      Inr (sample_completion ''m1'')"
    by (simp add: sample_env_def accepts_def)
  then have h4: "chat_create ?env [ReadFile ''/srv/clip.mp3''] (primary_model sample_args None)
      (build_content (to_base64 ?env [0xFF, 0xFB, 0x90])
         (detectAudioFormat (extname ?env) [0xFF, 0xFB, 0x90] ''clip.mp3'')) =
      Inr (sample_completion ''m1'')"
    by (simp only: p sample_parts_eq)
  have h5: "choices (sample_completion ''m1'') = \<lparr>message = \<lparr>content = Some ''hello''\<rparr>\<rparr> # []"
    by (simp add: sample_completion_def)
  from primary_success_returns_at_once [OF h1 h2 h3 h4 h5] c show ?thesis
    by (simp add: p sample_parts_eq sample_completion_def or_else_def)
qed

text \<open>
  C3. When every attempt made in an invocation has failed (its completion call was
  rejected, or returned a completion with no choice to read), and at least one attempt
  was made, whether or not a distinct backup or free model was there to try, the handler
  returns a result, not a fault: the payload carries the message of the error of the
  most recent attempt, the primary model and usage counts of zero, and \<^verbatim>\<open>isError\<close> is
  true.
\<close>

theorem exhausted_returns_last_error:
  assumes "completion_outcomes (snd (handleAnalyzeAudio env args dm)) = outs"
    and "outs \<noteq> []" and "\<forall>r \<in> set outs. attempt_error r \<noteq> None"
  shows "\<exists>e. attempt_error (last outs) = Some e \<and>
      fst (handleAnalyzeAudio env args dm) =
        Inr \<lparr>content_text =
               Failure (error_text e) (primary_model args dm)
                 \<lparr>prompt_tokens = 0, completion_tokens = 0, total_tokens = 0\<rparr>,
             isError = Some True\<rparr>"
  using exhausted_core [OF assms] by (simp add: soft_failure_def zero_usage_def)

theorem exhausted_returns_last_error_witness:
  "completion_outcomes
     (snd (handleAnalyzeAudio (sample_env refuses listing_free (Some ''m2'')) sample_args None)) =
     [Inl (ErrorObj ''no endpoint for m1''), Inl (ErrorObj ''no endpoint for m2''),
      Inl (ErrorObj ''no endpoint for Vendor/Whisper-Large:FREE'')] \<and>
   attempt_error (Inl (ErrorObj ''no endpoint for Vendor/Whisper-Large:FREE'')) =
     Some (ErrorObj ''no endpoint for Vendor/Whisper-Large:FREE'') \<and>
   fst (handleAnalyzeAudio (sample_env refuses listing_free (Some ''m2'')) sample_args None) =
     Inr \<lparr>content_text =
            Failure ''no endpoint for Vendor/Whisper-Large:FREE'' ''m1''
              \<lparr>prompt_tokens = 0, completion_tokens = 0, total_tokens = 0\<rparr>,
          isError = Some True\<rparr>"
proof -
  let ?env = "sample_env refuses listing_free (Some ''m2'')"
  let ?outs = "[Inl (ErrorObj ''no endpoint for m1''), Inl (ErrorObj ''no endpoint for m2''),
       Inl (ErrorObj ''no endpoint for Vendor/Whisper-Large:FREE'')] :: (thrown + completion) list"
  have o: "completion_outcomes (snd (handleAnalyzeAudio ?env sample_args None)) = ?outs"
    by (simp add: run_full_chain refuses_def)
  have n: "?outs \<noteq> []" by simp
  have f: "\<forall>r \<in> set ?outs. attempt_error r \<noteq> None"
    by (simp add: attempt_error_def)
  from exhausted_returns_last_error [OF o n f] o show ?thesis
    by (auto simp: attempt_error_def primary_model_def sample_args_def or_else_def)
qed

text \<open>
  C4. A request whose arguments lack \<^verbatim>\<open>audio_url\<close> is answered with the protocol fault
  \<^verbatim>\<open>McpError(InvalidParams, 'audio_url parameter is required')\<close>, thrown through the
  outer handler and not turned into an error result, and the trace is empty: no payload
  is loaded, no model listing and no completion call is made.
\<close>

theorem missing_audio_url_is_fault:
  assumes "audio_url args = None"
  shows "handleAnalyzeAudio env args dm =
      (Inl (McpError InvalidParams ''audio_url parameter is required''), [])"
  using assms by (simp add: handleAnalyzeAudio_def handler_body_def validation_fault_def)

theorem missing_audio_url_is_fault_witness:
  "audio_url \<lparr>audio_url = None, model = Some ''m1''\<rparr> = None \<and>
   handleAnalyzeAudio (sample_env accepts listing_free None)
     \<lparr>audio_url = None, model = Some ''m1''\<rparr> (Some ''m0'') =
     (Inl (McpError InvalidParams ''audio_url parameter is required''), [])"
proof -
  have h: "audio_url \<lparr>audio_url = None, model = Some ''m1''\<rparr> = None" by simp
  from missing_audio_url_is_fault [OF h] h show ?thesis by simp
qed

text \<open>
  C5. No model is sent to the completion API twice in one invocation. The calls to the
  remote API are, in order: the primary; then the backup, only if one is configured and
  differs from the primary; then, after the listing, the discovered model, only if it
  differs from the primary and from the backup.
\<close>

theorem no_model_attempted_twice:
  "distinct (completion_models (snd (handleAnalyzeAudio env args dm))) \<and>
   (api_calls (snd (handleAnalyzeAudio env args dm)) = [] \<or>
    api_calls (snd (handleAnalyzeAudio env args dm)) = [Completion (primary_model args dm)] \<or>
    api_calls (snd (handleAnalyzeAudio env args dm)) =
      [Completion (primary_model args dm), Listing] \<or>
    (\<exists>f. f \<noteq> primary_model args dm \<and> Some f \<noteq> backup_model env \<and>
       api_calls (snd (handleAnalyzeAudio env args dm)) =
         [Completion (primary_model args dm), Listing, Completion f]) \<or>
    (\<exists>b. backup_model env = Some b \<and> b \<noteq> primary_model args dm \<and>
       (api_calls (snd (handleAnalyzeAudio env args dm)) =
          [Completion (primary_model args dm), Completion b] \<or>
        api_calls (snd (handleAnalyzeAudio env args dm)) =
          [Completion (primary_model args dm), Completion b, Listing] \<or>
        (\<exists>f. f \<noteq> primary_model args dm \<and> f \<noteq> b \<and>
           api_calls (snd (handleAnalyzeAudio env args dm)) =
             [Completion (primary_model args dm), Completion b, Listing, Completion f]))))"
proof -
  have "distinct (completion_models (snd (handleAnalyzeAudio env args dm)))"
    using handler_api_calls [of env args dm]
    by (auto simp: models_of_calls)
  with handler_api_calls [of env args dm] show ?thesis by blast
qed

theorem no_model_attempted_twice_witness:
  "distinct
     (completion_models
        (snd (handleAnalyzeAudio (sample_env refuses listing_free (Some ''m2'')) sample_args None))) \<and>
   api_calls
     (snd (handleAnalyzeAudio (sample_env refuses listing_free (Some ''m2'')) sample_args None)) =
     [Completion ''m1'', Completion ''m2'', Listing, Completion ''Vendor/Whisper-Large:FREE''] \<and>
   api_calls
     (snd (handleAnalyzeAudio (sample_env refuses listing_down (Some ''m1'')) sample_args None)) =
     [Completion ''m1'', Listing]"
proof -
  let ?env = "sample_env refuses listing_free (Some ''m2'')"
  from no_model_attempted_twice [of ?env sample_args None]
  have d: "distinct (completion_models (snd (handleAnalyzeAudio ?env sample_args None)))"
    by blast
  have a: "api_calls (snd (handleAnalyzeAudio ?env sample_args None)) =
      [Completion ''m1'', Completion ''m2'', Listing, Completion ''Vendor/Whisper-Large:FREE'']"
    by (simp add: run_full_chain)
  have b: "api_calls
      (snd (handleAnalyzeAudio (sample_env refuses listing_down (Some ''m1'')) sample_args None)) =
      [Completion ''m1'', Listing]"
    by (simp add: run_defs)
  from d a b show ?thesis by blast
qed

text \<open>
  C6. In every invocation the payload is loaded at most once (one HTTP GET or one file
  read), the models are listed at most once, and at most three completion calls are
  made, never a fourth. The calls are sequential: each completion call recorded in the
  trace carries the answer given on the calls before it, so it has returned before the
  next call is issued.
\<close>

theorem call_bounds:
  "loads (snd (handleAnalyzeAudio env args dm)) \<le> 1 \<and>
   listings (snd (handleAnalyzeAudio env args dm)) \<le> 1 \<and>
   length (completion_models (snd (handleAnalyzeAudio env args dm))) \<le> 3 \<and>
   sequenced env [] (snd (handleAnalyzeAudio env args dm))"
proof -
  have "listings (snd (handleAnalyzeAudio env args dm)) \<le> 1 \<and>
      length (completion_models (snd (handleAnalyzeAudio env args dm))) \<le> 3"
    using handler_api_calls [of env args dm]
    by (auto simp: models_of_calls listings_of_calls)
  with handler_loads [of env args dm] handler_sequenced [of env args dm]
  show ?thesis by simp
qed

theorem call_bounds_witness:
  "loads
     (snd (handleAnalyzeAudio (sample_env refuses listing_free (Some ''m2'')) sample_args None)) = 1 \<and>
   listings
     (snd (handleAnalyzeAudio (sample_env refuses listing_free (Some ''m2'')) sample_args None)) = 1 \<and>
   length (completion_models
     (snd (handleAnalyzeAudio (sample_env refuses listing_free (Some ''m2'')) sample_args None))) = 3 \<and>
   sequenced (sample_env refuses listing_free (Some ''m2'')) []
     (snd (handleAnalyzeAudio (sample_env refuses listing_free (Some ''m2'')) sample_args None))"
proof -
  let ?env = "sample_env refuses listing_free (Some ''m2'')"
  from call_bounds [of ?env sample_args None]
  have s: "sequenced ?env [] (snd (handleAnalyzeAudio ?env sample_args None))"
    by blast
  have c: "loads (snd (handleAnalyzeAudio ?env sample_args None)) = 1 \<and>
      listings (snd (handleAnalyzeAudio ?env sample_args None)) = 1 \<and>
      length (completion_models (snd (handleAnalyzeAudio ?env sample_args None))) = 3"
    by (simp add: run_full_chain loads_def listings_def)
  from s c show ?thesis by blast
qed

text \<open>
  C9, an instance: a reference that parses as a URL is fetched, and the 404 answer is the
  failure "Failed to fetch audio: Not Found"; a relative path with a backslash is
  normalised, resolved against the working directory and read, and the read error is
  the loader's.
\<close>

theorem fetchAudio_classifies_witness:
  "isUrl (sample_env accepts listing_down None) ''https://host/a.wav'' \<and>
   fetchAudio (sample_env accepts listing_down None) ''https://host/a.wav'' [] =
     (Inl (ErrorObj ''Failed to fetch audio: Not Found''), [HttpGet ''https://host/a.wav'']) \<and>
   \<not> isUrl (sample_env accepts listing_down None) (''sub'' @ [backslash] @ ''clip.mp3'') \<and>
   fetchAudio (sample_env accepts listing_down None) (''sub'' @ [backslash] @ ''clip.mp3'') [] =
     (Inl (ErrorObj ''ENOENT''), [ReadFile ''/srv/sub/clip.mp3''])"
proof -
  let ?env = "sample_env accepts listing_down None"
  let ?ref = "''sub'' @ [backslash] @ ''clip.mp3''"
  have u: "isUrl ?env ''https://host/a.wav''"
    by (simp add: isUrl_def sample_env_def)
  have n: "\<not> isUrl ?env ?ref"
    by (simp add: isUrl_def sample_env_def)
  have r: "fetch ?env [] ''https://host/a.wav'' =
      Inr \<lparr>status = 404, statusText = ''Not Found'', body = Inr []\<rparr>"
    by (simp add: sample_env_def)
  from fetchAudio_classifies [of ?env "''https://host/a.wav''" "[]"] u r
  have a: "fetchAudio ?env ''https://host/a.wav'' [] =
      (Inl (ErrorObj ''Failed to fetch audio: Not Found''), [HttpGet ''https://host/a.wav''])"
    by (simp add: prod_eq_iff)
  from fetchAudio_classifies [of ?env ?ref "[]"] n
  have b: "fetchAudio ?env ?ref [] = (Inl (ErrorObj ''ENOENT''), [ReadFile ''/srv/sub/clip.mp3''])"
    by (simp add: sample_env_def backslash_def)
  from u a n b show ?thesis by blast
qed

text \<open>
  C10. Whenever the handler returns an error result, the model named in its payload is
  the primary candidate: the request's model, else the caller's default, else the
  built-in default audio model. This holds also when the error reported is that of the
  backup or of the discovered model.
\<close>

theorem soft_failure_names_primary:
  assumes "fst (handleAnalyzeAudio env args dm) = Inr res" and "isError res = Some True"
  shows "\<exists>msg. content_text res =
      Failure msg (or_else (model args) (or_else dm DEFAULT_AUDIO_MODEL)) zero_usage"
proof (cases env args dm rule: handler_cases)
  case invalid
  with assms show ?thesis by simp
next
  case (load_failed url e ev)
  with assms show ?thesis by (auto simp: soft_failure_def primary_model_def)
next
  case (primary_ok url buffer ev res' tr1)
  with assms attempt_flag [OF primary_ok(5)] show ?thesis by simp
next
  case (fallback_ok url buffer ev e tr1 res' tr2)
  with assms on_primary_error_flag [OF fallback_ok(6)] show ?thesis by simp
next
  case (exhausted url buffer ev e tr1 e' tr2)
  with assms show ?thesis by (auto simp: soft_failure_def primary_model_def)
qed

theorem soft_failure_names_primary_witness:
  "fst (handleAnalyzeAudio (sample_env refuses listing_down (Some ''m2''))
      \<lparr>audio_url = Some ''clip.mp3'', model = None\<rparr> (Some ''m0'')) =
     Inr \<lparr>content_text = Failure ''no endpoint for m2'' ''m0'' zero_usage, isError = Some True\<rparr> \<and>
   or_else None (or_else (Some ''m0'') DEFAULT_AUDIO_MODEL) = ''m0'' \<and>
   (\<exists>msg. Failure ''no endpoint for m2'' ''m0'' zero_usage = Failure msg ''m0'' zero_usage)"
proof -
  let ?env = "sample_env refuses listing_down (Some ''m2'')"
  let ?args = "\<lparr>audio_url = Some ''clip.mp3'', model = None\<rparr>"
  let ?res = "\<lparr>content_text = Failure ''no endpoint for m2'' ''m0'' zero_usage,
    isError = Some True\<rparr>"
  have a: "fst (handleAnalyzeAudio ?env ?args (Some ''m0'')) = Inr ?res"
    by (simp add: run_defs)
  have b: "isError ?res = Some True" by simp
  have c: "or_else None (or_else (Some ''m0'') DEFAULT_AUDIO_MODEL) = ''m0''"
    by (simp add: or_else_def)
  from soft_failure_names_primary [OF a b] a c show ?thesis by simp
qed

end
